theory Spec2Isabelle
  imports Complex_Main "HOL-Library.Sublist"
begin

section \<open>JavaScript values used by the application\<close>

text \<open>
  A JavaScript string is a sequence of UTF-16 code units. The model keeps that view:
  a string is a list of code-unit values, so that \<open>trim\<close>, \<open>===\<close>, concatenation and
  the truthiness test (a string is falsy exactly when it is empty) are the operations
  of the language. ASCII literals are written through \<open>js\<close>.
\<close>

type_synonym jsstring = "nat list"

definition js :: "string \<Rightarrow> jsstring" where
  "js s = map of_char s"

text \<open>
  The truthiness of a value that is a string, \<open>null\<close> or \<open>undefined\<close>; \<open>!s\<close> is
  its negation.
\<close>

definition truthy :: "jsstring option \<Rightarrow> bool" where
  "truthy v = (case v of None \<Rightarrow> False | Some s \<Rightarrow> s \<noteq> [])"

text \<open>\<open>a || b\<close> where \<open>a\<close> is a string, \<open>null\<close> or \<open>undefined\<close>.\<close>

definition js_or :: "jsstring option \<Rightarrow> jsstring option \<Rightarrow> jsstring option" where
  "js_or a b = (if truthy a then a else b)"

text \<open>\<open>a || "literal"\<close>: the result is always a string.\<close>

definition or_default :: "jsstring option \<Rightarrow> jsstring \<Rightarrow> jsstring" where
  "or_default a d = (case a of None \<Rightarrow> d | Some s \<Rightarrow> if s \<noteq> [] then s else d)"

text \<open>
  The decimal rendering of a non-negative integer, as a template literal
  \<open>`${n}`\<close> produces it.
\<close>

fun show_nat :: "nat \<Rightarrow> jsstring" where
  "show_nat n = (if n < 10 then [48 + n] else show_nat (n div 10) @ [48 + n mod 10])"

declare show_nat.simps [simp del]

text \<open>
  \<open>String.prototype.trim\<close> removes white space and line terminators from both ends:
  TAB, LF, VT, FF, CR, SPACE, NBSP, U+1680, U+2000 to U+200A, U+2028, U+2029, U+202F,
  U+205F, U+3000 and U+FEFF.
\<close>

definition is_ws :: "nat \<Rightarrow> bool" where
  "is_ws c \<longleftrightarrow> c \<in> {9, 10, 11, 12, 13, 32, 160, 5760, 8232, 8233, 8239, 8287, 12288, 65279}
     \<or> (8192 \<le> c \<and> c \<le> 8202)"

definition trim :: "jsstring \<Rightarrow> jsstring" where
  "trim s = rev (dropWhile is_ws (rev (dropWhile is_ws s)))"

text \<open>
  \<open>Number.prototype.toFixed(2)\<close> on a non-negative number: the integer \<open>n\<close> with
  \<open>n / 100\<close> closest to the number, the larger one on a tie, printed with two decimals.
\<close>

definition toFixed2 :: "rat \<Rightarrow> jsstring" where
  "toFixed2 x = (let n = nat \<lfloor>x * 100 + 1 / 2\<rfloor>
                 in show_nat (n div 100) @ [46] @ [48 + (n mod 100) div 10, 48 + n mod 10])"

text \<open>An \<open>Error\<close> object, a rejected promise's reason or an error payload: its message.\<close>

datatype js_error = Error (message: jsstring)


section \<open>The file validator\<close>

text \<open>A browser \<open>File\<close>: name, size in bytes, declared media type.\<close>

record js_file =
  f_name :: jsstring
  f_size :: nat
  f_type :: jsstring

text \<open>
  The \<open>options\<close> argument of \<open>validateFile\<close>; an absent property takes the default of
  the destructuring pattern. The limit is a whole number of megabytes, as at every call
  in the repository.
\<close>

record options =
  opt_maxSizeMB :: "nat option"
  opt_allowedTypes :: "jsstring list option"

definition no_options :: options where
  "no_options = \<lparr>opt_maxSizeMB = None, opt_allowedTypes = None\<rparr>"

record validation =
  valid :: bool
  error :: "jsstring option"

text \<open>\<open>allowedTypes.join(', ')\<close>.\<close>

fun join :: "jsstring list \<Rightarrow> jsstring" where
  "join [] = []"
| "join [x] = x"
| "join (x # y # ys) = x @ js '', '' @ join (y # ys)"

text \<open>
  \<open>file.size / (1024 * 1024)\<close>. The size is an integer below \<open>2^53\<close> and the divisor a
  power of two, so the double the program computes is this rational number exactly.
\<close>

definition fileSizeMB :: "js_file \<Rightarrow> rat" where
  "fileSizeMB f = of_nat (f_size f) / (1024 * 1024)"

definition validateFile :: "js_file option \<Rightarrow> options \<Rightarrow> validation" where
  "validateFile fo opts =
     (let maxSizeMB = (case opt_maxSizeMB opts of None \<Rightarrow> 10 | Some m \<Rightarrow> m);
          allowedTypes = (case opt_allowedTypes opts of None \<Rightarrow> [js ''application/pdf'']
                          | Some ts \<Rightarrow> ts)
      in case fo of
           None \<Rightarrow> \<lparr>valid = False, error = Some (js ''No file selected'')\<rparr>
         | Some f \<Rightarrow>
             if fileSizeMB f > of_nat maxSizeMB then
               \<lparr>valid = False,
                error = Some (js ''File size exceeds '' @ show_nat maxSizeMB @ js ''MB limit (''
                              @ toFixed2 (fileSizeMB f) @ js ''MB)'')\<rparr>
             else if f_type f \<notin> set allowedTypes then
               \<lparr>valid = False,
                error = Some (js ''File type not allowed. Accepted: '' @ join allowedTypes)\<rparr>
             else \<lparr>valid = True, error = None\<rparr>)"


section \<open>Client state, hook results and outgoing effects\<close>

text \<open>
  The \<open>useState\<close> cells of \<open>App\<close>. The selected job is held as an identifier only
  (\<open>null\<close> when nothing is selected).
\<close>

record app_state =
  isPasswordReset :: bool
  isProcessing :: bool
  selectedFile :: "js_file option"
  userQuery :: jsstring
  uploadProgress :: nat
  progressMessage :: jsstring
  selectedChatId :: "jsstring option"

text \<open>
  A row of the \<open>chats\<close> table as the subscription \<open>GET_MY_HISTORY_SUB\<close> selects it.
  The fields carry the prefix \<open>c_\<close>; nullable text columns are options.
\<close>

record chat =
  c_id :: jsstring
  c_file_name :: "jsstring option"
  c_status :: jsstring
  c_analysis_result :: "jsstring option"
  c_created_at :: jsstring
  c_file_id :: jsstring
  c_user_id :: "jsstring option"
  c_query :: "jsstring option"

text \<open>The \<open>data\<close> object of the subscription: \<open>data?.chats\<close> may be absent.\<close>

record sub_data =
  chats :: "chat list option"

text \<open>
  What the hooks hand to one render of \<open>App\<close>: the authentication status, the user
  identifier (\<open>undefined\<close> when signed out) and the latest result of \<open>useSubscription\<close>.
\<close>

record hooks =
  isAuthenticated :: bool
  isLoading :: bool
  userId :: "jsstring option"
  data :: "sub_data option"
  subLoading :: bool
  subError :: "js_error option"

text \<open>The variables of the mutation and the object \<open>INSERT_CHAT\<close> inserts with them.\<close>

record variables =
  v_file_id :: jsstring
  v_file_name :: jsstring
  v_query :: jsstring

record insert_object =
  o_file_id :: jsstring
  o_file_name :: jsstring
  o_status :: jsstring
  o_query :: jsstring

definition INSERT_CHAT :: "variables \<Rightarrow> insert_object" where
  "INSERT_CHAT v = \<lparr>o_file_id = v_file_id v, o_file_name = v_file_name v,
                     o_status = js ''pending'', o_query = v_query v\<rparr>"

text \<open>The JSON body posted to the analysis service.\<close>

record analyze_body =
  b_chat_id :: jsstring
  b_file_id :: jsstring
  b_user_id :: jsstring
  b_query :: jsstring

definition RENDER_API_URL :: jsstring where
  "RENDER_API_URL = js ''https://wingify-crewai-correct-code.onrender.com/analyze''"

text \<open>
  Everything a handler does to the outside, in the order it does it: the upload, the
  insert mutation, the POST to the analysis service, \<open>alert\<close>, \<open>console.error\<close> and
  the reset of the file input element.
\<close>

datatype event =
    UploadCall js_file
  | InsertChatCall insert_object
  | FetchCall jsstring analyze_body
  | Alert jsstring
  | ConsoleError js_error
  | ClearFileInput

text \<open>The answers of the collaborators. \<open>Inl\<close> is a rejected promise.\<close>

record file_metadata =
  m_id :: "jsstring option"

record upload_result =
  u_isError :: bool
  u_error :: "js_error option"
  u_file :: "file_metadata option"
  u_id :: "jsstring option"

record inserted =
  i_id :: "jsstring option"

record mutation_data =
  insert_chats_one :: "inserted option"

record mutation_result =
  m_data :: "mutation_data option"
  m_errors :: "js_error list option"

record response =
  r_ok :: bool
  r_status :: nat
  r_text :: "js_error + jsstring"

record world =
  upload :: "js_file \<Rightarrow> js_error + upload_result"
  insertChat :: "variables \<Rightarrow> js_error + mutation_result"
  fetch :: "jsstring \<Rightarrow> analyze_body \<Rightarrow> js_error + response"
  fileInput :: bool

definition PROGRESS_uploading :: jsstring where
  "PROGRESS_uploading = js ''Uploading file to secure storage...''"

definition PROGRESS_queueing :: jsstring where
  "PROGRESS_queueing = js ''Creating analysis record...''"

definition PROGRESS_processing :: jsstring where
  "PROGRESS_processing = js ''Sending to AI agents...''"

definition PROGRESS_completed :: jsstring where
  "PROGRESS_completed = js ''Analysis queued successfully!''"

definition PROGRESS_error :: jsstring where
  "PROGRESS_error = js ''Upload failed. Please try again.''"


section \<open>The submission orchestrator\<close>

text \<open>\<open>handleFileChange\<close> of \<open>App\<close>: a rejected file is reported and never stored.\<close>

definition handleFileChange :: "js_file option \<Rightarrow> app_state \<Rightarrow> app_state \<times> event list" where
  "handleFileChange fo st =
     (let validation = validateFile fo
            \<lparr>opt_maxSizeMB = Some 10, opt_allowedTypes = Some [js ''application/pdf'']\<rparr>
      in if \<not> valid validation then
           (st, [Alert (case error validation of Some m \<Rightarrow> m | None \<Rightarrow> js ''null''),
                 ClearFileInput])
         else (st\<lparr>selectedFile := fo, uploadProgress := 0, progressMessage := []\<rparr>, []))"

text \<open>\<open>uploadResult.file?.id || uploadResult.id\<close>.\<close>

definition fileId_of :: "upload_result \<Rightarrow> jsstring option" where
  "fileId_of r = js_or (case u_file r of None \<Rightarrow> None | Some m \<Rightarrow> m_id m) (u_id r)"

text \<open>\<open>mutationData?.insert_chats_one?.id\<close>.\<close>

definition chatId_of :: "mutation_result \<Rightarrow> jsstring option" where
  "chatId_of r = (case m_data r of None \<Rightarrow> None
                  | Some d \<Rightarrow> (case insert_chats_one d of None \<Rightarrow> None | Some i \<Rightarrow> i_id i))"

text \<open>The three awaited steps; each returns the value the next step needs, or what it throws.\<close>

definition upload_step :: "world \<Rightarrow> js_file \<Rightarrow> js_error + jsstring" where
  "upload_step w f =
     (case upload w f of
        Inl e \<Rightarrow> Inl e
      | Inr r \<Rightarrow>
          if u_isError r \<or> u_error r \<noteq> None then
            Inl (Error (or_default (map_option message (u_error r)) (js ''File upload failed'')))
          else (case fileId_of r of
                  None \<Rightarrow> Inl (Error (js ''Failed to get file ID after upload''))
                | Some i \<Rightarrow> if i = [] then Inl (Error (js ''Failed to get file ID after upload''))
                            else Inr i))"

definition register_step :: "world \<Rightarrow> variables \<Rightarrow> js_error + jsstring" where
  "register_step w v =
     (case insertChat w v of
        Inl e \<Rightarrow> Inl e
      | Inr r \<Rightarrow>
          (case m_errors r of
             Some errs \<Rightarrow>
               Inl (Error (js ''Database error: '' @
                     or_default (case errs of [] \<Rightarrow> None | e # _ \<Rightarrow> Some (message e))
                                (js ''Unknown database error'')))
           | None \<Rightarrow>
               (case chatId_of r of
                  None \<Rightarrow> Inl (Error (js ''Failed to create analysis record''))
                | Some i \<Rightarrow> if i = [] then Inl (Error (js ''Failed to create analysis record''))
                            else Inr i)))"

definition trigger_step :: "world \<Rightarrow> analyze_body \<Rightarrow> js_error + unit" where
  "trigger_step w b =
     (case fetch w RENDER_API_URL b of
        Inl e \<Rightarrow> Inl e
      | Inr resp \<Rightarrow>
          if \<not> r_ok resp then
            (let errorText = (case r_text resp of Inl _ \<Rightarrow> js ''Unknown error'' | Inr t \<Rightarrow> t)
             in Inl (Error (js ''Analysis service failed: '' @ show_nat (r_status resp)
                            @ js '' - '' @ errorText)))
          else Inr ())"

text \<open>\<open>userQuery.trim() || "Analyze financial trends and risks"\<close>.\<close>

definition finalQuery :: "jsstring \<Rightarrow> jsstring" where
  "finalQuery q = or_default (Some (trim q)) (js ''Analyze financial trends and risks'')"

text \<open>
  The body of the \<open>try\<close> block, for the file and user identifier the guard has let
  through. The result is what the block throws (\<open>Inl\<close>) or the identifier of the job it
  has navigated to (\<open>Inr\<close>), with the state and the effects up to that point.
\<close>

definition try_block ::
  "world \<Rightarrow> jsstring \<Rightarrow> js_file \<Rightarrow> app_state \<Rightarrow> (js_error + jsstring) \<times> app_state \<times> event list" where
  "try_block w uid f st =
     (case upload_step w f of
        Inl e \<Rightarrow> (Inl e, st, [UploadCall f])
      | Inr fileId \<Rightarrow>
          (let st1 = st\<lparr>uploadProgress := 50, progressMessage := PROGRESS_queueing\<rparr>;
               v = \<lparr>v_file_id = fileId, v_file_name = f_name f, v_query = finalQuery (userQuery st)\<rparr>;
               tr1 = [UploadCall f, InsertChatCall (INSERT_CHAT v)]
           in case register_step w v of
                Inl e \<Rightarrow> (Inl e, st1, tr1)
              | Inr chatId \<Rightarrow>
                  (let st2 = st1\<lparr>uploadProgress := 75, progressMessage := PROGRESS_processing\<rparr>;
                       b = \<lparr>b_chat_id = chatId, b_file_id = fileId, b_user_id = uid,
                            b_query = finalQuery (userQuery st)\<rparr>;
                       tr2 = tr1 @ [FetchCall RENDER_API_URL b]
                   in case trigger_step w b of
                        Inl e \<Rightarrow> (Inl e, st2, tr2)
                      | Inr _ \<Rightarrow>
                          (let st3 = st2\<lparr>uploadProgress := 100,
                                         progressMessage := PROGRESS_completed\<rparr>
                           in (Inr chatId,
                               st3\<lparr>selectedChatId := Some chatId, selectedFile := None,
                                   userQuery := [], uploadProgress := 0, progressMessage := []\<rparr>,
                               tr2)))))"

text \<open>The text of the \<open>alert\<close> in the \<open>catch\<close> clause; it starts with U+274C.\<close>

definition error_alert :: "js_error \<Rightarrow> jsstring" where
  "error_alert e = [10060] @ js '' Error: '' @ message e @ [10, 10]
                   @ js ''Check browser console (F12) for details.''"

definition guard_alert :: jsstring where
  "guard_alert = js ''Please select a file and ensure you'' @ [39] @ js ''re logged in.''"

text \<open>
  \<open>handleUploadAndAnalyze\<close>: the guard, the \<open>try\<close> block, the \<open>catch\<close> clause and the
  \<open>finally\<close> clause. The handler runs from the values its closure captured, and the
  model takes one run as one step: the state cells it returns are those its own setters
  have written, with no other handler in between.
\<close>

definition handleUploadAndAnalyze ::
  "world \<Rightarrow> jsstring option \<Rightarrow> app_state \<Rightarrow> app_state \<times> event list" where
  "handleUploadAndAnalyze w uid st =
     (case (selectedFile st, uid) of
        (None, _) \<Rightarrow> (st, [Alert guard_alert])
      | (Some f, None) \<Rightarrow> (st, [Alert guard_alert])
      | (Some f, Some u) \<Rightarrow>
          if u = [] then (st, [Alert guard_alert])
          else
            (let st0 = st\<lparr>isProcessing := True, progressMessage := PROGRESS_uploading,
                          uploadProgress := 10\<rparr>;
                 cleanup = (if fileInput w then [ClearFileInput] else [])
             in case try_block w u f st0 of
                  (Inl err, st', tr) \<Rightarrow>
                    (st'\<lparr>progressMessage := PROGRESS_error, isProcessing := False\<rparr>,
                     tr @ [ConsoleError err, Alert (error_alert err)] @ cleanup)
                | (Inr _, st', tr) \<Rightarrow> (st'\<lparr>isProcessing := False\<rparr>, tr @ cleanup)))"

text \<open>
  The run of a submission, as the \<open>try\<close> block ends: \<open>None\<close> when the guard turned the
  call away, otherwise what the block threw or the job it created.
\<close>

definition submission :: "world \<Rightarrow> jsstring option \<Rightarrow> app_state \<Rightarrow> (js_error + jsstring) option" where
  "submission w uid st =
     (case (selectedFile st, uid) of
        (Some f, Some u) \<Rightarrow>
          if u = [] then None
          else Some (fst (try_block w u f
                 (st\<lparr>isProcessing := True, progressMessage := PROGRESS_uploading,
                     uploadProgress := 10\<rparr>)))
      | _ \<Rightarrow> None)"

text \<open>The remaining handlers of \<open>App\<close>.\<close>

definition handleNewAnalysis :: "app_state \<Rightarrow> app_state" where
  "handleNewAnalysis st = st\<lparr>selectedChatId := None, selectedFile := None, userQuery := []\<rparr>"

definition onSelectChat :: "chat \<Rightarrow> app_state \<Rightarrow> app_state" where
  "onSelectChat c st = st\<lparr>selectedChatId := Some (c_id c)\<rparr>"


section \<open>The live job projector and the rendered page\<close>

text \<open>
  \<open>data?.chats?.filter(chat => chat.user_id === userId) || []\<close>. A \<open>null\<close> owner
  and an \<open>undefined\<close> user identifier are never strictly equal.
\<close>

definition owned_by :: "jsstring option \<Rightarrow> chat \<Rightarrow> bool" where
  "owned_by uid c = (case uid of None \<Rightarrow> False | Some u \<Rightarrow> c_user_id c = Some u)"

definition myChats :: "sub_data option \<Rightarrow> jsstring option \<Rightarrow> chat list" where
  "myChats d uid =
     (case d of
        None \<Rightarrow> []
      | Some sd \<Rightarrow> (case chats sd of None \<Rightarrow> [] | Some cs \<Rightarrow> filter (owned_by uid) cs))"

text \<open>\<open>myChats.find(c => c.id === selectedChatId) || null\<close>.\<close>

definition selectedChat :: "chat list \<Rightarrow> jsstring option \<Rightarrow> chat option" where
  "selectedChat jobs sel = find (\<lambda>c. sel = Some (c_id c)) jobs"

text \<open>
  \<open>StatusBadge\<close>: \<open>configs[status] || configs.pending\<close>, of which the label is shown.
  \<open>configs\<close> is an object literal, so a status that names a property inherited from
  \<open>Object.prototype\<close> finds that property, which is truthy and has no label.
\<close>

definition object_prototype_keys :: "jsstring list" where
  "object_prototype_keys =
     [js ''constructor'', js ''hasOwnProperty'', js ''isPrototypeOf'',
      js ''propertyIsEnumerable'', js ''toLocaleString'', js ''toString'', js ''valueOf'',
      js ''__proto__'', js ''__defineGetter__'', js ''__defineSetter__'',
      js ''__lookupGetter__'', js ''__lookupSetter__'']"

definition StatusBadge :: "jsstring \<Rightarrow> jsstring option" where
  "StatusBadge status =
     (if status = js ''pending'' then Some (js ''Pending'')
      else if status = js ''processing'' then Some (js ''Processing'')
      else if status = js ''completed'' then Some (js ''Completed'')
      else if status = js ''failed'' then Some (js ''Failed'')
      else if status \<in> set object_prototype_keys then None
      else Some (js ''Pending''))"

text \<open>
  What \<open>ChatWorkspace\<close> shows of its \<open>chat\<close> property: the heading, the query, the
  creation time (the argument of the date formatter), the badge, and the three panels,
  each present or not. The \<open>subLoading\<close> property is not read.
\<close>

record chat_workspace =
  cw_heading :: jsstring
  cw_query :: "jsstring option"
  cw_created_at :: jsstring
  cw_badge :: "jsstring option"
  cw_results :: "jsstring option"
  cw_waiting :: "jsstring option"
  cw_failed :: bool

definition ChatWorkspace :: "chat \<Rightarrow> bool \<Rightarrow> chat_workspace" where
  "ChatWorkspace c sub_loading =
     \<lparr>cw_heading = or_default (c_file_name c) (js ''Untitled Document''),
      cw_query = (if truthy (c_query c) then c_query c else None),
      cw_created_at = c_created_at c,
      cw_badge = StatusBadge (c_status c),
      cw_results = (if c_status c = js ''completed'' \<and> truthy (c_analysis_result c)
                    then c_analysis_result c else None),
      cw_waiting = (if c_status c = js ''processing'' then Some (js ''Analysis in Progress'')
                    else if c_status c = js ''pending'' then Some (js ''Queued for Processing'')
                    else None),
      cw_failed = (c_status c = js ''failed'')\<rparr>"

text \<open>What \<open>UploadWorkspace\<close> is given: the draft and the progress indicator.\<close>

record upload_workspace =
  uw_selectedFile :: "js_file option"
  uw_userQuery :: jsstring
  uw_isProcessing :: bool
  uw_uploadProgress :: nat
  uw_progressMessage :: jsstring

text \<open>The \<open>Sidebar\<close>: one entry per job handed to it, and the flags of the channel.\<close>

record sidebar_item =
  si_key :: jsstring
  si_title :: jsstring
  si_query :: "jsstring option"
  si_created_at :: jsstring
  si_isSelected :: bool

record sidebar =
  sb_items :: "sidebar_item list"
  sb_empty :: bool
  sb_syncing :: bool
  sb_error :: bool

definition Sidebar :: "chat list \<Rightarrow> chat option \<Rightarrow> bool \<Rightarrow> js_error option \<Rightarrow> sidebar" where
  "Sidebar jobs sel sub_loading sub_error =
     \<lparr>sb_items = map (\<lambda>c. \<lparr>si_key = c_id c,
                              si_title = or_default (c_file_name c) (js ''Untitled Document''),
                              si_query = (if truthy (c_query c) then c_query c else None),
                              si_created_at = c_created_at c,
                              si_isSelected = (map_option c_id sel = Some (c_id c))\<rparr>) jobs,
      sb_empty = (length jobs = 0 \<and> \<not> sub_loading),
      sb_syncing = sub_loading,
      sb_error = (sub_error \<noteq> None)\<rparr>"

datatype main_view = ChatWorkspaceV chat_workspace | UploadWorkspaceV upload_workspace

datatype page = LoadingPage | ResetPasswordPage | LoginPage | WorkspacePage sidebar main_view

text \<open>
  One render of \<open>App\<close>. The page is a function of the hook results and the state cells
  of this render alone.
\<close>

definition App :: "hooks \<Rightarrow> app_state \<Rightarrow> page" where
  "App h st =
     (let jobs = myChats (data h) (userId h);
          sel = selectedChat jobs (selectedChatId st)
      in if isLoading h then LoadingPage
         else if isPasswordReset st then ResetPasswordPage
         else if \<not> isAuthenticated h then LoginPage
         else WorkspacePage
                (Sidebar jobs sel (subLoading h) (subError h))
                (case sel of
                   Some c \<Rightarrow> ChatWorkspaceV (ChatWorkspace c (subLoading h))
                 | None \<Rightarrow>
                     UploadWorkspaceV
                       \<lparr>uw_selectedFile = selectedFile st, uw_userQuery = userQuery st,
                        uw_isProcessing = isProcessing st, uw_uploadProgress = uploadProgress st,
                        uw_progressMessage = progressMessage st\<rparr>))"


section \<open>The components of \<open>FileUpload.js\<close> and \<open>ChatHistory.js\<close>\<close>

text \<open>
  Neither component is imported by \<open>index.js\<close> or \<open>App.js\<close>; they are modelled to record
  how they differ from the orchestrator and the projector above. \<open>FileUpload\<close> inserts a
  row that carries the owner and the status \<open>processing\<close>, and calls no analysis
  service. A rejected promise or a read of \<open>id\<close> on a missing \<open>fileMetadata\<close> ends its
  handler with an uncaught error.
\<close>

record storage_result =
  s_fileMetadata :: "file_metadata option"
  s_error :: "js_error option"

record legacy_object =
  l_user_id :: "jsstring option"
  l_file_id :: "jsstring option"
  l_file_name :: jsstring
  l_status :: jsstring

datatype legacy_event =
    LUploadCall js_file
  | LInsertCall legacy_object
  | LAlert jsstring
  | LConsoleLog jsstring
  | LUncaught

definition FileUpload_handleFileChange ::
  "(js_file \<Rightarrow> js_error + storage_result) \<Rightarrow> (legacy_object \<Rightarrow> js_error + unit)
     \<Rightarrow> jsstring option \<Rightarrow> js_file option \<Rightarrow> legacy_event list" where
  "FileUpload_handleFileChange up ins uid fo =
     (case fo of
        None \<Rightarrow> []
      | Some f \<Rightarrow>
          (case up f of
             Inl _ \<Rightarrow> [LUploadCall f, LUncaught]
           | Inr r \<Rightarrow>
               (case s_error r of
                  Some e \<Rightarrow> [LUploadCall f, LAlert (js ''Upload failed: '' @ message e)]
                | None \<Rightarrow>
                    (case s_fileMetadata r of
                       None \<Rightarrow> [LUploadCall f, LUncaught]
                     | Some m \<Rightarrow>
                         (let obj = \<lparr>l_user_id = uid, l_file_id = m_id m, l_file_name = f_name f,
                                     l_status = js ''processing''\<rparr>
                          in case ins obj of
                               Inl _ \<Rightarrow> [LUploadCall f, LInsertCall obj, LUncaught]
                             | Inr _ \<Rightarrow>
                                 [LUploadCall f, LInsertCall obj,
                                  LConsoleLog (js ''File stored with ID:'')])))))"

text \<open>
  \<open>ChatHistory\<close> runs a one-off query and lists every row of the answer; \<open>None\<close> is the
  uncaught error of reading \<open>chats\<close> of an absent \<open>data\<close>.
\<close>

datatype history_view =
  LoadingHistory | History "(jsstring option \<times> jsstring \<times> jsstring option) list"

definition ChatHistory :: "bool \<Rightarrow> chat list option \<Rightarrow> history_view option" where
  "ChatHistory loading d =
     (if loading then Some LoadingHistory
      else (case d of None \<Rightarrow> None
            | Some cs \<Rightarrow> Some (History (map (\<lambda>c. (c_file_name c, c_status c,
                                   if truthy (c_analysis_result c) then c_analysis_result c
                                   else None)) cs))))"


section \<open>Vocabulary for the statements\<close>

text \<open>The rows of the latest snapshot: \<open>data?.chats\<close>, empty while nothing has arrived.\<close>

definition snapshot_rows :: "sub_data option \<Rightarrow> chat list" where
  "snapshot_rows d = (case d of None \<Rightarrow> [] | Some sd \<Rightarrow> (case chats sd of None \<Rightarrow> [] | Some cs \<Rightarrow> cs))"

fun is_upload :: "event \<Rightarrow> bool" where
  "is_upload (UploadCall _) = True"
| "is_upload _ = False"

fun is_insert :: "event \<Rightarrow> bool" where
  "is_insert (InsertChatCall _) = True"
| "is_insert _ = False"

fun is_fetch :: "event \<Rightarrow> bool" where
  "is_fetch (FetchCall _ _) = True"
| "is_fetch _ = False"

text \<open>The effect of the \<open>finally\<close> clause, the variables of Register and the body of Trigger.\<close>

definition cleanup_of :: "world \<Rightarrow> event list" where
  "cleanup_of w = (if fileInput w then [ClearFileInput] else [])"

definition vars_of :: "jsstring \<Rightarrow> js_file \<Rightarrow> app_state \<Rightarrow> variables" where
  "vars_of fileId f st =
     \<lparr>v_file_id = fileId, v_file_name = f_name f, v_query = finalQuery (userQuery st)\<rparr>"

definition body_of :: "jsstring \<Rightarrow> jsstring \<Rightarrow> jsstring \<Rightarrow> app_state \<Rightarrow> analyze_body" where
  "body_of chatId fileId u st =
     \<lparr>b_chat_id = chatId, b_file_id = fileId, b_user_id = u, b_query = finalQuery (userQuery st)\<rparr>"

definition DEFAULT_QUERY :: jsstring where
  "DEFAULT_QUERY = js ''Analyze financial trends and risks''"


section \<open>Concrete runs\<close>

definition initial_state :: app_state where
  "initial_state = \<lparr>isPasswordReset = False, isProcessing = False, selectedFile = None,
                    userQuery = [], uploadProgress = 0, progressMessage = [],
                    selectedChatId = None\<rparr>"

definition small_pdf :: js_file where
  "small_pdf = \<lparr>f_name = js ''report.pdf'', f_size = 2097152, f_type = js ''application/pdf''\<rparr>"

definition big_pdf :: js_file where
  "big_pdf = \<lparr>f_name = js ''annual.pdf'', f_size = 12582912, f_type = js ''application/pdf''\<rparr>"

definition big_text :: js_file where
  "big_text = \<lparr>f_name = js ''notes.txt'', f_size = 12582912, f_type = js ''text/plain''\<rparr>"

definition small_text :: js_file where
  "small_text = \<lparr>f_name = js ''notes.txt'', f_size = 2097152, f_type = js ''text/plain''\<rparr>"

text \<open>A draft: the small PDF selected and a query typed.\<close>

definition draft :: "jsstring \<Rightarrow> app_state" where
  "draft q = initial_state\<lparr>selectedFile := Some small_pdf, userQuery := q\<rparr>"

text \<open>
  Collaborators that all succeed: the store returns \<open>f1\<close>, the registry \<open>j1\<close>, the
  analysis service HTTP 200.
\<close>

definition world_ok :: world where
  "world_ok =
     \<lparr>upload = (\<lambda>_. Inr \<lparr>u_isError = False, u_error = None, u_file = None,
                           u_id = Some (js ''f1'')\<rparr>),
      insertChat = (\<lambda>_. Inr \<lparr>m_data = Some \<lparr>insert_chats_one = Some \<lparr>i_id = Some (js ''j1'')\<rparr>\<rparr>,
                              m_errors = None\<rparr>),
      fetch = (\<lambda>_ _. Inr \<lparr>r_ok = True, r_status = 200, r_text = Inr (js ''ok'')\<rparr>),
      fileInput = True\<rparr>"

definition world_upload_error :: world where
  "world_upload_error =
     world_ok\<lparr>upload := (\<lambda>_. Inr \<lparr>u_isError = True, u_error = Some (Error (js ''bucket down'')),
                                   u_file = None, u_id = None\<rparr>)\<rparr>"

definition world_register_error :: world where
  "world_register_error =
     world_ok\<lparr>insertChat := (\<lambda>_. Inr \<lparr>m_data = None,
                                       m_errors = Some [Error (js ''permission denied'')]\<rparr>)\<rparr>"

definition world_500 :: world where
  "world_500 =
     world_ok\<lparr>fetch := (\<lambda>_ _. Inr \<lparr>r_ok = False, r_status = 500, r_text = Inr (js ''boom'')\<rparr>)\<rparr>"

text \<open>Two jobs of user \<open>u1\<close> and one of user \<open>u2\<close>, newest first.\<close>

definition job :: "string \<Rightarrow> string \<Rightarrow> string \<Rightarrow> string \<Rightarrow> chat" where
  "job i owner st t =
     \<lparr>c_id = js i, c_file_name = Some (js ''report.pdf''), c_status = js st,
      c_analysis_result = None, c_created_at = js t, c_file_id = js ''f1'',
      c_user_id = Some (js owner), c_query = Some (js ''Analyze financial trends and risks'')\<rparr>"

definition rows3 :: "chat list" where
  "rows3 = [job ''j3'' ''u1'' ''pending'' ''2026-03-03'',
            job ''j2'' ''u2'' ''completed'' ''2026-03-02'',
            job ''j1'' ''u1'' ''processing'' ''2026-03-01'']"

text \<open>The same snapshot after the analysis service has finished job \<open>j1\<close>.\<close>

definition rows3_later :: "chat list" where
  "rows3_later = [job ''j3'' ''u1'' ''pending'' ''2026-03-03'',
                  job ''j2'' ''u2'' ''completed'' ''2026-03-02'',
                  (job ''j1'' ''u1'' ''completed'' ''2026-03-01'')
                     \<lparr>c_analysis_result := Some (js ''Revenue grew.'')\<rparr>]"

text \<open>
  Newest first: the creation time of the first row is not before that of the second,
  timestamps of one format compared as strings.
\<close>

definition newest_first :: "chat \<Rightarrow> chat \<Rightarrow> bool" where
  "newest_first a b = (\<not> ord_class.lexordp (c_created_at a) (c_created_at b))"

text \<open>The state in which only a job identifier is selected.\<close>

definition viewing :: "string \<Rightarrow> app_state" where
  "viewing i = initial_state\<lparr>selectedChatId := Some (js i)\<rparr>"

definition signed_in :: "chat list \<Rightarrow> hooks" where
  "signed_in rows = \<lparr>isAuthenticated = True, isLoading = False, userId = Some (js ''u1''),
                     data = Some \<lparr>chats = Some rows\<rparr>, subLoading = False, subError = None\<rparr>"



section \<open>Properties\<close>

subsection \<open>Arithmetic of the size check\<close>

lemma hundredths:
  "nat \<lfloor>(of_nat s / (1024 * 1024) :: rat) * 100 + 1 / 2\<rfloor> = (200 * s + 1048576) div 2097152"
proof -
  have "(of_nat s / (1024 * 1024) :: rat) * 100 + 1 / 2
          = of_nat (200 * s + 1048576) / of_nat 2097152"
    by (simp add: field_simps)
  then have "\<lfloor>(of_nat s / (1024 * 1024) :: rat) * 100 + 1 / 2\<rfloor>
               = int ((200 * s + 1048576) div 2097152)"
    by (simp only: floor_divide_of_nat_eq)
  then show ?thesis by simp
qed

lemma toFixed2_fileSizeMB:
  "toFixed2 (fileSizeMB f) =
     (let n = (200 * f_size f + 1048576) div 2097152
      in show_nat (n div 100) @ [46] @ [48 + (n mod 100) div 10, 48 + n mod 10])"
  unfolding toFixed2_def fileSizeMB_def hundredths ..

lemma fileSizeMB_gt: "fileSizeMB f > of_nat m \<longleftrightarrow> f_size f > m * 1048576"
proof -
  have "fileSizeMB f > of_nat m \<longleftrightarrow> (of_nat (f_size f) :: rat) > of_nat (m * 1048576)"
    by (simp add: fileSizeMB_def field_simps)
  then show ?thesis by (simp only: of_nat_less_iff)
qed

subsection \<open>trim\<close>

lemma trim_decompose:
  "\<exists>pre post. s = pre @ trim s @ post \<and> (\<forall>c\<in>set pre. is_ws c) \<and> (\<forall>c\<in>set post. is_ws c)"
proof -
  let ?t = "dropWhile is_ws s"
  have a: "s = takeWhile is_ws s @ ?t" by simp
  have b: "rev ?t = takeWhile is_ws (rev ?t) @ dropWhile is_ws (rev ?t)" by simp
  have "?t = rev (rev ?t)" by simp
  also have "\<dots> = rev (dropWhile is_ws (rev ?t)) @ rev (takeWhile is_ws (rev ?t))"
    by (subst b) (simp only: rev_append)
  finally have c: "?t = trim s @ rev (takeWhile is_ws (rev ?t))" by (simp add: trim_def)
  have "s = takeWhile is_ws s @ trim s @ rev (takeWhile is_ws (rev ?t))"
    using a c by metis
  moreover have "\<forall>c\<in>set (takeWhile is_ws s). is_ws c" by (auto dest: set_takeWhileD)
  moreover have "\<forall>c\<in>set (rev (takeWhile is_ws (rev ?t))). is_ws c" by (auto dest: set_takeWhileD)
  ultimately show ?thesis by blast
qed

lemma trim_first: "trim s \<noteq> [] \<Longrightarrow> \<not> is_ws (hd (trim s))"
proof -
  assume ne: "trim s \<noteq> []"
  let ?t = "dropWhile is_ws s"
  let ?u = "dropWhile is_ws (rev ?t)"
  have tne: "?t \<noteq> []"
  proof
    assume e: "?t = []"
    have "trim s = []" unfolding trim_def e by simp
    with ne show False by simp
  qed
  have h: "\<not> is_ws (hd ?t)" using tne by (rule hd_dropWhile)
  have une: "?u \<noteq> []" using ne by (simp add: trim_def)
  have "last ?u = last (rev ?t)"
    using une by (metis last_appendR takeWhile_dropWhile_id)
  then have "hd (rev ?u) = hd ?t" using une tne by (simp add: hd_rev last_rev)
  then show ?thesis using h by (simp add: trim_def)
qed

lemma trim_last: "trim s \<noteq> [] \<Longrightarrow> \<not> is_ws (last (trim s))"
proof -
  assume ne: "trim s \<noteq> []"
  let ?u = "dropWhile is_ws (rev (dropWhile is_ws s))"
  have une: "?u \<noteq> []" using ne by (simp add: trim_def)
  have "\<not> is_ws (hd ?u)" using une by (rule hd_dropWhile)
  then show ?thesis using une by (simp add: trim_def last_rev)
qed

lemma trim_empty_iff: "trim s = [] \<longleftrightarrow> (\<forall>c\<in>set s. is_ws c)"
proof
  assume "trim s = []"
  then have "\<forall>c\<in>set (rev (dropWhile is_ws s)). is_ws c"
    by (simp add: trim_def)
  then have "dropWhile is_ws s = []"
    by (metis hd_dropWhile list.set_sel(1) set_rev)
  then show "\<forall>c\<in>set s. is_ws c" by simp
next
  assume "\<forall>c\<in>set s. is_ws c"
  then have e: "dropWhile is_ws s = []" by simp
  show "trim s = []" unfolding trim_def e by simp
qed

lemma finalQuery_eq:
  "finalQuery q = (if trim q = [] then DEFAULT_QUERY else trim q)"
  by (simp add: finalQuery_def or_default_def DEFAULT_QUERY_def)


subsection \<open>Validator\<close>

lemma show_nat_10: "show_nat 10 = js ''10''"
  by (simp add: show_nat.simps js_def)

lemma js_append: "js (a @ b) = js a @ js b"
  by (simp add: js_def)

lemma validateFile_call_site:
  "validateFile fo \<lparr>opt_maxSizeMB = Some 10, opt_allowedTypes = Some [js ''application/pdf'']\<rparr>
     = validateFile fo no_options"
  by (simp add: validateFile_def no_options_def)

lemma validateFile_default:
  "validateFile fo no_options =
     (case fo of
        None \<Rightarrow> \<lparr>valid = False, error = Some (js ''No file selected'')\<rparr>
      | Some f \<Rightarrow>
          if f_size f > 10 * 1048576 then
            \<lparr>valid = False,
             error = Some (js ''File size exceeds 10MB limit ('' @ toFixed2 (fileSizeMB f) @ js ''MB)'')\<rparr>
          else if f_type f \<noteq> js ''application/pdf'' then
            \<lparr>valid = False, error = Some (js ''File type not allowed. Accepted: application/pdf'')\<rparr>
          else \<lparr>valid = True, error = None\<rparr>)"
proof -
  have gt: "fileSizeMB f > 10 \<longleftrightarrow> f_size f > 10 * 1048576" for f
    using fileSizeMB_gt [of 10 f] by simp
  have m1: "js ''File size exceeds '' @ show_nat 10 @ js ''MB limit ('' @ x
              = js ''File size exceeds 10MB limit ('' @ x" for x
    by (simp add: show_nat_10 js_def)
  have m2: "js ''File type not allowed. Accepted: '' @ js ''application/pdf''
              = js ''File type not allowed. Accepted: application/pdf''"
    by (simp add: js_def)
  show ?thesis
    by (simp add: validateFile_def no_options_def gt m1 m2 split: option.splits)
qed

lemma handleFileChange_emits_no_upload: "\<not> list_ex is_upload (snd (handleFileChange fo st))"
  by (simp add: handleFileChange_def Let_def)

text \<open>
  Claim C6, as the code has it. The validator is a function of the file and the options
  alone. With the default configuration it answers \<open>No file selected\<close> for no file; the
  too-large message, with the size in MB to two decimals and the limit 10, for every file
  above 10 MB whatever its type; the type message, listing the allowed type, for a file
  within the limit whose declared type is not \<open>application/pdf\<close>; and \<open>valid\<close>
  otherwise. A rejected file leaves the state as it was, and neither the file handler nor
  a later submission from the initial state calls the upload.
\<close>

theorem validateFile_reasons:
  "validateFile None no_options = \<lparr>valid = False, error = Some (js ''No file selected'')\<rparr>
   \<and> (f_size f > 10 * 1048576 \<longrightarrow>
        validateFile (Some f) no_options =
          \<lparr>valid = False,
           error = Some (js ''File size exceeds 10MB limit ('' @ toFixed2 (fileSizeMB f) @ js ''MB)'')\<rparr>)
   \<and> (f_size f \<le> 10 * 1048576 \<and> f_type f \<noteq> js ''application/pdf'' \<longrightarrow>
        validateFile (Some f) no_options =
          \<lparr>valid = False, error = Some (js ''File type not allowed. Accepted: application/pdf'')\<rparr>)
   \<and> (f_size f \<le> 10 * 1048576 \<and> f_type f = js ''application/pdf'' \<longrightarrow>
        validateFile (Some f) no_options = \<lparr>valid = True, error = None\<rparr>)
   \<and> (\<not> valid (validateFile fo no_options) \<longrightarrow>
        fst (handleFileChange fo st) = st
        \<and> \<not> list_ex is_upload (snd (handleFileChange fo st))
        \<and> \<not> list_ex is_upload (snd (handleUploadAndAnalyze w uid initial_state)))"
proof -
  have "\<not> valid (validateFile fo no_options) \<Longrightarrow> fst (handleFileChange fo st) = st"
    by (simp add: handleFileChange_def validateFile_call_site)
  moreover have "\<not> list_ex is_upload (snd (handleUploadAndAnalyze w uid initial_state))"
    by (simp add: handleUploadAndAnalyze_def initial_state_def)
  ultimately show ?thesis
    by (simp add: validateFile_default handleFileChange_emits_no_upload)
qed

text \<open>
  Scenario A: a 12 MB PDF against the 10 MB limit; and a 2 MB text file.
\<close>

theorem validateFile_reasons_witness:
  "f_size big_pdf > 10 * 1048576
   \<and> validateFile (Some big_pdf) no_options =
       \<lparr>valid = False, error = Some (js ''File size exceeds 10MB limit (12.00MB)'')\<rparr>
   \<and> f_size small_text \<le> 10 * 1048576 \<and> f_type small_text \<noteq> js ''application/pdf''
   \<and> validateFile (Some small_text) no_options =
       \<lparr>valid = False, error = Some (js ''File type not allowed. Accepted: application/pdf'')\<rparr>
   \<and> handleFileChange (Some big_pdf) initial_state =
       (initial_state, [Alert (js ''File size exceeds 10MB limit (12.00MB)''), ClearFileInput])"
proof -
  have t: "toFixed2 (fileSizeMB big_pdf) = js ''12.00''"
    by (simp add: toFixed2_fileSizeMB big_pdf_def show_nat.simps js_def)
  have a: "f_size big_pdf > 10 * 1048576" by (simp add: big_pdf_def)
  have b: "f_size small_text \<le> 10 * 1048576 \<and> f_type small_text \<noteq> js ''application/pdf''"
    by (simp add: small_text_def js_def)
  have m: "js ''File size exceeds 10MB limit ('' @ js ''12.00'' @ js ''MB)''
             = js ''File size exceeds 10MB limit (12.00MB)''"
    by (simp add: js_def)
  have v: "validateFile (Some big_pdf) no_options =
             \<lparr>valid = False, error = Some (js ''File size exceeds 10MB limit (12.00MB)'')\<rparr>"
    using validateFile_reasons [of big_pdf "Some big_pdf" initial_state world_ok None] a
    by (simp add: t m)
  have h: "handleFileChange (Some big_pdf) initial_state =
             (initial_state, [Alert (js ''File size exceeds 10MB limit (12.00MB)''), ClearFileInput])"
    by (simp add: handleFileChange_def validateFile_call_site v)
  show ?thesis
    using validateFile_reasons [of small_text "Some big_pdf" initial_state world_ok None] a b v h
    by simp
qed

text \<open>
  The size is checked before the type: a 12 MB file whose declared type is
  \<open>text/plain\<close> is answered with the too-large message, not with the type message.
\<close>

theorem validateFile_type_reason_counterexample:
  "f_type big_text \<noteq> js ''application/pdf''
   \<and> validateFile (Some big_text) no_options =
       \<lparr>valid = False, error = Some (js ''File size exceeds 10MB limit (12.00MB)'')\<rparr>
   \<and> error (validateFile (Some big_text) no_options)
       \<noteq> Some (js ''File type not allowed. Accepted: application/pdf'')"
proof -
  have t: "toFixed2 (fileSizeMB big_text) = js ''12.00''"
    by (simp add: toFixed2_fileSizeMB big_text_def show_nat.simps js_def)
  have a: "f_type big_text \<noteq> js ''application/pdf''" by (simp add: big_text_def js_def)
  have v: "validateFile (Some big_text) no_options =
       \<lparr>valid = False, error = Some (js ''File size exceeds 10MB limit (12.00MB)'')\<rparr>"
    by (simp add: validateFile_default t) (simp add: big_text_def js_def)
  have "js ''File size exceeds 10MB limit (12.00MB)''
          \<noteq> js ''File type not allowed. Accepted: application/pdf''"
    by (simp add: js_def)
  with a v show ?thesis by simp
qed


subsection \<open>The handler's effects\<close>

lemma guard_passes:
  "selectedFile st = Some f \<Longrightarrow> uid = Some u \<Longrightarrow> u \<noteq> [] \<Longrightarrow>
   handleUploadAndAnalyze w uid st =
     (case try_block w u f (st\<lparr>isProcessing := True, progressMessage := PROGRESS_uploading,
                                uploadProgress := 10\<rparr>) of
        (Inl err, st', tr) \<Rightarrow>
          (st'\<lparr>progressMessage := PROGRESS_error, isProcessing := False\<rparr>,
           tr @ [ConsoleError err, Alert (error_alert err)] @ cleanup_of w)
      | (Inr _, st', tr) \<Rightarrow> (st'\<lparr>isProcessing := False\<rparr>, tr @ cleanup_of w))"
  unfolding cleanup_of_def by (simp add: handleUploadAndAnalyze_def Let_def)

lemma guard_rejects:
  "selectedFile st = None \<or> \<not> truthy uid \<Longrightarrow>
   handleUploadAndAnalyze w uid st = (st, [Alert guard_alert])"
  by (auto simp: handleUploadAndAnalyze_def truthy_def split: option.splits)

lemma try_block_inserts:
  "InsertChatCall obj \<in> set (snd (snd (try_block w u f st))) \<Longrightarrow>
   \<exists>fileId. upload_step w f = Inr fileId \<and> obj = INSERT_CHAT (vars_of fileId f st)"
  by (auto simp: try_block_def vars_of_def Let_def split: sum.splits)

lemma try_block_fetches:
  "FetchCall url b \<in> set (snd (snd (try_block w u f st))) \<Longrightarrow>
   url = RENDER_API_URL \<and>
   (\<exists>fileId chatId. upload_step w f = Inr fileId \<and>
      register_step w (vars_of fileId f st) = Inr chatId \<and> b = body_of chatId fileId u st)"
  by (auto simp: try_block_def vars_of_def body_of_def Let_def split: sum.splits)

lemma handler_inserts:
  assumes "InsertChatCall obj \<in> set (snd (handleUploadAndAnalyze w uid st))"
  shows "\<exists>f u fileId. selectedFile st = Some f \<and> uid = Some u \<and> u \<noteq> [] \<and>
           upload_step w f = Inr fileId \<and> obj = INSERT_CHAT (vars_of fileId f st)"
proof (cases "selectedFile st = None \<or> \<not> truthy uid")
  case True
  then show ?thesis using assms by (simp add: guard_rejects)
next
  case False
  then obtain f u where g: "selectedFile st = Some f" "uid = Some u" "u \<noteq> []"
    by (auto simp: truthy_def split: option.splits)
  let ?st0 = "st\<lparr>isProcessing := True, progressMessage := PROGRESS_uploading, uploadProgress := 10\<rparr>"
  have "InsertChatCall obj \<in> set (snd (snd (try_block w u f ?st0)))"
    using assms by (auto simp: guard_passes [OF g] cleanup_of_def split: prod.splits sum.splits if_splits)
  from try_block_inserts [OF this] g show ?thesis by (auto simp: vars_of_def)
qed

lemma handler_fetches:
  assumes "FetchCall url b \<in> set (snd (handleUploadAndAnalyze w uid st))"
  shows "url = RENDER_API_URL \<and>
         (\<exists>f u fileId chatId. selectedFile st = Some f \<and> uid = Some u \<and> u \<noteq> [] \<and>
           upload_step w f = Inr fileId \<and> register_step w (vars_of fileId f st) = Inr chatId \<and>
           b = body_of chatId fileId u st)"
proof (cases "selectedFile st = None \<or> \<not> truthy uid")
  case True
  then show ?thesis using assms by (simp add: guard_rejects)
next
  case False
  then obtain f u where g: "selectedFile st = Some f" "uid = Some u" "u \<noteq> []"
    by (auto simp: truthy_def split: option.splits)
  let ?st0 = "st\<lparr>isProcessing := True, progressMessage := PROGRESS_uploading, uploadProgress := 10\<rparr>"
  have "FetchCall url b \<in> set (snd (snd (try_block w u f ?st0)))"
    using assms by (auto simp: guard_passes [OF g] cleanup_of_def split: prod.splits sum.splits if_splits)
  from try_block_fetches [OF this] g show ?thesis by (auto simp: vars_of_def body_of_def)
qed

text \<open>
  Claim C7. Whenever a run of the handler calls Register, the query it passes is the
  user's text trimmed, or the fixed default when the trimmed text is empty; Register is
  called with exactly that query as soon as Upload has returned a file identifier. The
  trimmed text is the user's text without a prefix and a suffix of white space, and it
  neither starts nor ends with white space.
\<close>

theorem register_gets_effective_query:
  "(InsertChatCall obj \<in> set (snd (handleUploadAndAnalyze w uid st)) \<longrightarrow>
      o_query obj = (if trim (userQuery st) = [] then DEFAULT_QUERY else trim (userQuery st)))
   \<and> (selectedFile st = Some f \<and> uid = Some u \<and> u \<noteq> [] \<and> upload_step w f = Inr fileId \<longrightarrow>
        InsertChatCall
          \<lparr>o_file_id = fileId, o_file_name = f_name f, o_status = js ''pending'',
           o_query = (if trim (userQuery st) = [] then DEFAULT_QUERY else trim (userQuery st))\<rparr>
        \<in> set (snd (handleUploadAndAnalyze w uid st)))
   \<and> (\<exists>pre post. userQuery st = pre @ trim (userQuery st) @ post
         \<and> (\<forall>c\<in>set pre. is_ws c) \<and> (\<forall>c\<in>set post. is_ws c))
   \<and> (trim (userQuery st) \<noteq> [] \<longrightarrow>
         \<not> is_ws (hd (trim (userQuery st))) \<and> \<not> is_ws (last (trim (userQuery st))))"
proof -
  have a: "InsertChatCall obj \<in> set (snd (handleUploadAndAnalyze w uid st)) \<Longrightarrow>
      o_query obj = (if trim (userQuery st) = [] then DEFAULT_QUERY else trim (userQuery st))"
    by (drule handler_inserts) (auto simp: INSERT_CHAT_def vars_of_def finalQuery_eq)
  have b: "InsertChatCall
          \<lparr>o_file_id = fileId, o_file_name = f_name f, o_status = js ''pending'',
           o_query = (if trim (userQuery st) = [] then DEFAULT_QUERY else trim (userQuery st))\<rparr>
        \<in> set (snd (handleUploadAndAnalyze w uid st))"
    if g: "selectedFile st = Some f" "uid = Some u" "u \<noteq> []" and up: "upload_step w f = Inr fileId"
    by (simp add: guard_passes [OF g] try_block_def up INSERT_CHAT_def finalQuery_eq Let_def
          split: sum.splits prod.splits)
  show ?thesis
    using a b trim_decompose [of "userQuery st"] trim_first [of "userQuery st"]
      trim_last [of "userQuery st"]
    by blast
qed


lemma submission_guard:
  "selectedFile st = Some f \<Longrightarrow> uid = Some u \<Longrightarrow> u \<noteq> [] \<Longrightarrow>
   submission w uid st =
     Some (fst (try_block w u f (st\<lparr>isProcessing := True, progressMessage := PROGRESS_uploading,
                                     uploadProgress := 10\<rparr>)))"
  by (simp add: submission_def)

lemma submission_None:
  "submission w uid st = None \<longleftrightarrow> selectedFile st = None \<or> \<not> truthy uid"
  by (auto simp: submission_def truthy_def split: option.splits)

lemma submission_cases:
  "submission w uid st = Some r \<Longrightarrow>
   \<exists>f u. selectedFile st = Some f \<and> uid = Some u \<and> u \<noteq> [] \<and>
     r = fst (try_block w u f (st\<lparr>isProcessing := True, progressMessage := PROGRESS_uploading,
                                   uploadProgress := 10\<rparr>))"
  by (auto simp: submission_def split: option.splits if_splits)

lemma try_block_success:
  "fst (try_block w u f st) = Inr chatId \<Longrightarrow>
   \<exists>fileId. upload_step w f = Inr fileId
     \<and> register_step w (vars_of fileId f st) = Inr chatId
     \<and> trigger_step w (body_of chatId fileId u st) = Inr ()
     \<and> try_block w u f st =
         (Inr chatId,
          st\<lparr>selectedChatId := Some chatId, selectedFile := None, userQuery := [],
             uploadProgress := 0, progressMessage := []\<rparr>,
          [UploadCall f, InsertChatCall (INSERT_CHAT (vars_of fileId f st)),
           FetchCall RENDER_API_URL (body_of chatId fileId u st)])"
  by (auto simp: try_block_def vars_of_def body_of_def Let_def split: sum.splits)

lemma try_block_failure:
  "fst (try_block w u f st) = Inl err \<Longrightarrow>
   \<exists>n m tr. try_block w u f st = (Inl err, st\<lparr>uploadProgress := n, progressMessage := m\<rparr>, tr)"
proof -
  assume a: "fst (try_block w u f st) = Inl err"
  have s0: "st = st\<lparr>uploadProgress := uploadProgress st, progressMessage := progressMessage st\<rparr>"
    by simp
  show ?thesis
  proof (cases "upload_step w f")
    case (Inl e)
    then have "try_block w u f st = (Inl err, st, [UploadCall f])"
      using a by (simp add: try_block_def)
    then show ?thesis using s0 by metis
  next
    case up: (Inr fileId)
    show ?thesis
    proof (cases "register_step w (vars_of fileId f st)")
      case (Inl e)
      then have "try_block w u f st =
          (Inl err, st\<lparr>uploadProgress := 50, progressMessage := PROGRESS_queueing\<rparr>,
           [UploadCall f, InsertChatCall (INSERT_CHAT (vars_of fileId f st))])"
        using a up by (simp add: try_block_def vars_of_def Let_def)
      then show ?thesis by blast
    next
      case reg: (Inr chatId)
      show ?thesis
      proof (cases "trigger_step w (body_of chatId fileId u st)")
        case (Inl e)
        then have "try_block w u f st =
            (Inl err, st\<lparr>uploadProgress := 75, progressMessage := PROGRESS_processing\<rparr>,
             [UploadCall f, InsertChatCall (INSERT_CHAT (vars_of fileId f st)),
              FetchCall RENDER_API_URL (body_of chatId fileId u st)])"
          using a up reg by (simp add: try_block_def vars_of_def body_of_def Let_def)
        then show ?thesis by blast
      next
        case (Inr x)
        then have False
          using a up reg by (simp add: try_block_def vars_of_def body_of_def Let_def)
        then show ?thesis ..
      qed
    qed
  qed
qed

lemma trace_ignores_progress:
  "snd (handleUploadAndAnalyze w uid (st\<lparr>isProcessing := p, uploadProgress := n, progressMessage := m\<rparr>))
     = snd (handleUploadAndAnalyze w uid st)"
  unfolding handleUploadAndAnalyze_def try_block_def Let_def
  by (auto split: option.splits sum.splits)

text \<open>
  Claim C2. A submission that ends successfully has issued exactly one insert, of a row
  with status \<open>pending\<close>; the insert stands before the call to the analysis service in
  the order of effects, and that call carries the identifier the insert returned.
\<close>

theorem successful_submission_registers_once:
  assumes "submission w uid st = Some (Inr chatId)"
  shows "\<exists>f u fileId.
           selectedFile st = Some f \<and> uid = Some u
           \<and> upload_step w f = Inr fileId
           \<and> register_step w (vars_of fileId f st) = Inr chatId
           \<and> snd (handleUploadAndAnalyze w uid st) =
               [UploadCall f, InsertChatCall (INSERT_CHAT (vars_of fileId f st)),
                FetchCall RENDER_API_URL (body_of chatId fileId u st)] @ cleanup_of w
           \<and> o_status (INSERT_CHAT (vars_of fileId f st)) = js ''pending''
           \<and> length (filter is_insert (snd (handleUploadAndAnalyze w uid st))) = 1"
proof -
  let ?st0 = "st\<lparr>isProcessing := True, progressMessage := PROGRESS_uploading, uploadProgress := 10\<rparr>"
  from submission_cases [OF assms] obtain f u where
    g: "selectedFile st = Some f" "uid = Some u" "u \<noteq> []"
    and r: "fst (try_block w u f ?st0) = Inr chatId"
    by auto
  from try_block_success [OF r] obtain fileId where
    up: "upload_step w f = Inr fileId"
    and reg: "register_step w (vars_of fileId f ?st0) = Inr chatId"
    and tb: "try_block w u f ?st0 =
         (Inr chatId,
          ?st0\<lparr>selectedChatId := Some chatId, selectedFile := None, userQuery := [],
             uploadProgress := 0, progressMessage := []\<rparr>,
          [UploadCall f, InsertChatCall (INSERT_CHAT (vars_of fileId f ?st0)),
           FetchCall RENDER_API_URL (body_of chatId fileId u ?st0)])"
    by auto
  have v: "vars_of fileId f ?st0 = vars_of fileId f st" by (simp add: vars_of_def)
  have b: "body_of chatId fileId u ?st0 = body_of chatId fileId u st" by (simp add: body_of_def)
  have tr: "snd (handleUploadAndAnalyze w uid st) =
               [UploadCall f, InsertChatCall (INSERT_CHAT (vars_of fileId f st)),
                FetchCall RENDER_API_URL (body_of chatId fileId u st)] @ cleanup_of w"
    by (simp add: guard_passes [OF g] tb v b)
  have n: "length (filter is_insert (snd (handleUploadAndAnalyze w uid st))) = 1"
    by (simp add: tr cleanup_of_def)
  have p: "o_status (INSERT_CHAT (vars_of fileId f st)) = js ''pending''"
    by (simp add: INSERT_CHAT_def)
  from g up reg v tr n p show ?thesis by auto
qed

text \<open>
  Claim C10. After a submission that does not end successfully (the guard turned it away
  or a step threw), the state differs from the state before at most in the processing
  flag, the progress scalar and the progress message: the selected file, the query text
  and the selected job identifier are as before, and a second submission from that state
  has the same effects as one from the state before.
\<close>

theorem failed_submission_keeps_draft:
  assumes "\<forall>j. submission w uid st \<noteq> Some (Inr j)"
  shows "(\<exists>p n m. fst (handleUploadAndAnalyze w uid st)
                    = st\<lparr>isProcessing := p, uploadProgress := n, progressMessage := m\<rparr>)
         \<and> selectedFile (fst (handleUploadAndAnalyze w uid st)) = selectedFile st
         \<and> userQuery (fst (handleUploadAndAnalyze w uid st)) = userQuery st
         \<and> selectedChatId (fst (handleUploadAndAnalyze w uid st)) = selectedChatId st
         \<and> snd (handleUploadAndAnalyze w' uid (fst (handleUploadAndAnalyze w uid st)))
             = snd (handleUploadAndAnalyze w' uid st)"
proof -
  have ex: "\<exists>p n m. fst (handleUploadAndAnalyze w uid st)
                    = st\<lparr>isProcessing := p, uploadProgress := n, progressMessage := m\<rparr>"
  proof (cases "submission w uid st")
    case None
    then have "handleUploadAndAnalyze w uid st = (st, [Alert guard_alert])"
      by (simp add: submission_None guard_rejects)
    moreover have "st = st\<lparr>isProcessing := isProcessing st, uploadProgress := uploadProgress st,
                            progressMessage := progressMessage st\<rparr>"
      by simp
    ultimately show ?thesis by (metis fst_conv)
  next
    case (Some r)
    let ?st0 = "st\<lparr>isProcessing := True, progressMessage := PROGRESS_uploading, uploadProgress := 10\<rparr>"
    from submission_cases [OF Some] obtain f u where
      g: "selectedFile st = Some f" "uid = Some u" "u \<noteq> []"
      and r: "r = fst (try_block w u f ?st0)"
      by auto
    from assms Some obtain err where "r = Inl err" by (cases r) auto
    with r have "fst (try_block w u f ?st0) = Inl err" by simp
    from try_block_failure [OF this] obtain n m tr where
      "try_block w u f ?st0 = (Inl err, ?st0\<lparr>uploadProgress := n, progressMessage := m\<rparr>, tr)"
      by blast
    then have "fst (handleUploadAndAnalyze w uid st)
                 = st\<lparr>isProcessing := False, uploadProgress := n, progressMessage := PROGRESS_error\<rparr>"
      by (simp add: guard_passes [OF g])
    then show ?thesis by blast
  qed
  then obtain p n m where e: "fst (handleUploadAndAnalyze w uid st)
                    = st\<lparr>isProcessing := p, uploadProgress := n, progressMessage := m\<rparr>"
    by blast
  show ?thesis
    using ex by (simp add: e trace_ignores_progress)
qed


lemmas run_defs =
  handleUploadAndAnalyze_def submission_def try_block_def upload_step_def register_step_def
  trigger_step_def fileId_of_def chatId_of_def js_or_def truthy_def finalQuery_def or_default_def
  INSERT_CHAT_def vars_of_def body_of_def cleanup_of_def error_alert_def Let_def
  world_ok_def world_upload_error_def world_register_error_def world_500_def
  draft_def initial_state_def small_pdf_def DEFAULT_QUERY_def RENDER_API_URL_def
  PROGRESS_error_def PROGRESS_uploading_def PROGRESS_queueing_def PROGRESS_processing_def
  trim_def is_ws_def show_nat.simps js_def

text \<open>
  Claim C4. When Upload fails (the promise is rejected, the result carries an error, or
  no file identifier comes back) the run stops: its only effects are the upload call,
  the report of the failure (console and \<open>alert\<close>, with the progress message set to the
  failure text) and the reset of the file input. No insert and no call to the analysis
  service is issued.
\<close>

theorem upload_failure_creates_no_job:
  assumes "selectedFile st = Some f" and "uid = Some u" and "u \<noteq> []"
    and "case upload w f of
           Inl e \<Rightarrow> True
         | Inr r \<Rightarrow> u_isError r \<or> u_error r \<noteq> None \<or> \<not> truthy (fileId_of r)"
  shows "\<exists>err. upload_step w f = Inl err
           \<and> handleUploadAndAnalyze w uid st =
               (st\<lparr>isProcessing := False, progressMessage := PROGRESS_error, uploadProgress := 10\<rparr>,
                [UploadCall f, ConsoleError err, Alert (error_alert err)] @ cleanup_of w)
           \<and> \<not> list_ex is_insert (snd (handleUploadAndAnalyze w uid st))
           \<and> \<not> list_ex is_fetch (snd (handleUploadAndAnalyze w uid st))"
  using assms
  by (auto simp: handleUploadAndAnalyze_def try_block_def upload_step_def cleanup_of_def truthy_def
        split: sum.splits option.splits)

text \<open>
  The object store reports an error.
\<close>

theorem upload_failure_creates_no_job_witness:
  "selectedFile (draft []) = Some small_pdf
   \<and> upload world_upload_error small_pdf =
       Inr \<lparr>u_isError = True, u_error = Some (Error (js ''bucket down'')), u_file = None,
            u_id = None\<rparr>
   \<and> handleUploadAndAnalyze world_upload_error (Some (js ''u1'')) (draft []) =
       ((draft [])\<lparr>uploadProgress := 10, progressMessage := js ''Upload failed. Please try again.''\<rparr>,
        [UploadCall small_pdf, ConsoleError (Error (js ''bucket down'')),
         Alert ([10060] @ js '' Error: bucket down'' @ [10, 10]
                @ js ''Check browser console (F12) for details.''),
         ClearFileInput])"
proof -
  have a: "selectedFile (draft []) = Some small_pdf" by (simp add: draft_def)
  have b: "js ''u1'' \<noteq> []" by (simp add: js_def)
  have c: "case upload world_upload_error small_pdf of
             Inl e \<Rightarrow> True
           | Inr r \<Rightarrow> u_isError r \<or> u_error r \<noteq> None \<or> \<not> truthy (fileId_of r)"
    by (simp add: world_upload_error_def world_ok_def)
  show ?thesis
    using upload_failure_creates_no_job [OF a refl b c]
    by (simp add: run_defs)
qed

text \<open>
  Claim C5. When Register fails (the mutation is rejected, returns errors, or yields no
  job identifier) the run ends with the report of the failure; no call to the analysis
  service is among its effects.
\<close>

theorem register_failure_issues_no_trigger:
  assumes "selectedFile st = Some f" and "uid = Some u" and "u \<noteq> []"
    and "upload_step w f = Inr fileId"
    and "case insertChat w (vars_of fileId f st) of
           Inl e \<Rightarrow> True
         | Inr r \<Rightarrow> m_errors r \<noteq> None \<or> \<not> truthy (chatId_of r)"
  shows "\<exists>err. register_step w (vars_of fileId f st) = Inl err
           \<and> handleUploadAndAnalyze w uid st =
               (st\<lparr>isProcessing := False, progressMessage := PROGRESS_error, uploadProgress := 50\<rparr>,
                [UploadCall f, InsertChatCall (INSERT_CHAT (vars_of fileId f st)),
                 ConsoleError err, Alert (error_alert err)] @ cleanup_of w)
           \<and> \<not> list_ex is_fetch (snd (handleUploadAndAnalyze w uid st))"
  using assms
  by (auto simp: handleUploadAndAnalyze_def try_block_def register_step_def cleanup_of_def
        truthy_def vars_of_def
        split: sum.splits option.splits)

text \<open>
  The registry answers with an error.
\<close>

theorem register_failure_issues_no_trigger_witness:
  "selectedFile (draft []) = Some small_pdf
   \<and> upload_step world_register_error small_pdf = Inr (js ''f1'')
   \<and> insertChat world_register_error (vars_of (js ''f1'') small_pdf (draft [])) =
       Inr \<lparr>m_data = None, m_errors = Some [Error (js ''permission denied'')]\<rparr>
   \<and> handleUploadAndAnalyze world_register_error (Some (js ''u1'')) (draft []) =
       ((draft [])\<lparr>uploadProgress := 50, progressMessage := js ''Upload failed. Please try again.''\<rparr>,
        [UploadCall small_pdf,
         InsertChatCall \<lparr>o_file_id = js ''f1'', o_file_name = js ''report.pdf'',
                         o_status = js ''pending'',
                         o_query = js ''Analyze financial trends and risks''\<rparr>,
         ConsoleError (Error (js ''Database error: permission denied'')),
         Alert ([10060] @ js '' Error: Database error: permission denied'' @ [10, 10]
                @ js ''Check browser console (F12) for details.''),
         ClearFileInput])"
proof -
  have a: "selectedFile (draft []) = Some small_pdf" by (simp add: draft_def)
  have b: "js ''u1'' \<noteq> []" by (simp add: js_def)
  have c: "upload_step world_register_error small_pdf = Inr (js ''f1'')"
    by (simp add: run_defs)
  have d: "case insertChat world_register_error (vars_of (js ''f1'') small_pdf (draft [])) of
             Inl e \<Rightarrow> True
           | Inr r \<Rightarrow> m_errors r \<noteq> None \<or> \<not> truthy (chatId_of r)"
    by (simp add: world_register_error_def world_ok_def)
  show ?thesis
    using register_failure_issues_no_trigger [OF a refl b c d]
    by (simp add: run_defs)
qed

text \<open>
  Claim C3. When the analysis service answers with a response that is not \<open>ok\<close>, the
  run reports \<open>Analysis service failed: <status> - <body>\<close> (the body as read, or
  \<open>Unknown error\<close> when it cannot be read) and ends. Its effects are one upload, one
  insert of a row with status \<open>pending\<close>, one call to the service, the report and the
  reset of the file input: no second call, and nothing that deletes or changes the row.
\<close>

theorem trigger_failure_leaves_job:
  assumes "selectedFile st = Some f" and "uid = Some u" and "u \<noteq> []"
    and "upload_step w f = Inr fileId"
    and "register_step w (vars_of fileId f st) = Inr chatId"
    and "fetch w RENDER_API_URL (body_of chatId fileId u st) = Inr resp"
    and "\<not> r_ok resp"
  shows "handleUploadAndAnalyze w uid st =
           (st\<lparr>isProcessing := False, progressMessage := PROGRESS_error, uploadProgress := 75\<rparr>,
            [UploadCall f, InsertChatCall (INSERT_CHAT (vars_of fileId f st)),
             FetchCall RENDER_API_URL (body_of chatId fileId u st),
             ConsoleError
               (Error (js ''Analysis service failed: '' @ show_nat (r_status resp) @ js '' - ''
                       @ (case r_text resp of Inl _ \<Rightarrow> js ''Unknown error'' | Inr t \<Rightarrow> t))),
             Alert (error_alert
               (Error (js ''Analysis service failed: '' @ show_nat (r_status resp) @ js '' - ''
                       @ (case r_text resp of Inl _ \<Rightarrow> js ''Unknown error'' | Inr t \<Rightarrow> t))))]
            @ cleanup_of w)
         \<and> o_status (INSERT_CHAT (vars_of fileId f st)) = js ''pending''
         \<and> length (filter is_insert (snd (handleUploadAndAnalyze w uid st))) = 1
         \<and> length (filter is_fetch (snd (handleUploadAndAnalyze w uid st))) = 1"
proof -
  have t: "trigger_step w (body_of chatId fileId u st) =
             Inl (Error (js ''Analysis service failed: '' @ show_nat (r_status resp) @ js '' - ''
                       @ (case r_text resp of Inl _ \<Rightarrow> js ''Unknown error'' | Inr t \<Rightarrow> t)))"
    using assms(6,7) by (simp add: trigger_step_def)
  have h: "handleUploadAndAnalyze w uid st =
           (st\<lparr>isProcessing := False, progressMessage := PROGRESS_error, uploadProgress := 75\<rparr>,
            [UploadCall f, InsertChatCall (INSERT_CHAT (vars_of fileId f st)),
             FetchCall RENDER_API_URL (body_of chatId fileId u st),
             ConsoleError
               (Error (js ''Analysis service failed: '' @ show_nat (r_status resp) @ js '' - ''
                       @ (case r_text resp of Inl _ \<Rightarrow> js ''Unknown error'' | Inr t \<Rightarrow> t))),
             Alert (error_alert
               (Error (js ''Analysis service failed: '' @ show_nat (r_status resp) @ js '' - ''
                       @ (case r_text resp of Inl _ \<Rightarrow> js ''Unknown error'' | Inr t \<Rightarrow> t))))]
            @ cleanup_of w)"
    using assms(4,5) t
    by (simp add: guard_passes [OF assms(1,2,3)] try_block_def vars_of_def body_of_def Let_def)
  show ?thesis
    by (simp add: h INSERT_CHAT_def cleanup_of_def)
qed

text \<open>
  Scenario C: file \<open>f1\<close>, job \<open>j1\<close>, HTTP 500.
\<close>

theorem trigger_failure_leaves_job_witness:
  "selectedFile (draft []) = Some small_pdf
   \<and> upload_step world_500 small_pdf = Inr (js ''f1'')
   \<and> register_step world_500 (vars_of (js ''f1'') small_pdf (draft [])) = Inr (js ''j1'')
   \<and> fetch world_500 RENDER_API_URL (body_of (js ''j1'') (js ''f1'') (js ''u1'') (draft []))
       = Inr \<lparr>r_ok = False, r_status = 500, r_text = Inr (js ''boom'')\<rparr>
   \<and> handleUploadAndAnalyze world_500 (Some (js ''u1'')) (draft []) =
       ((draft [])\<lparr>uploadProgress := 75, progressMessage := js ''Upload failed. Please try again.''\<rparr>,
        [UploadCall small_pdf,
         InsertChatCall \<lparr>o_file_id = js ''f1'', o_file_name = js ''report.pdf'',
                         o_status = js ''pending'',
                         o_query = js ''Analyze financial trends and risks''\<rparr>,
         FetchCall (js ''https://wingify-crewai-correct-code.onrender.com/analyze'')
           \<lparr>b_chat_id = js ''j1'', b_file_id = js ''f1'', b_user_id = js ''u1'',
            b_query = js ''Analyze financial trends and risks''\<rparr>,
         ConsoleError (Error (js ''Analysis service failed: 500 - boom'')),
         Alert ([10060] @ js '' Error: Analysis service failed: 500 - boom'' @ [10, 10]
                @ js ''Check browser console (F12) for details.''),
         ClearFileInput])"
proof -
  have a: "selectedFile (draft []) = Some small_pdf" by (simp add: draft_def)
  have b: "js ''u1'' \<noteq> []" by (simp add: js_def)
  have c: "upload_step world_500 small_pdf = Inr (js ''f1'')"
    by (simp add: run_defs)
  have d: "register_step world_500 (vars_of (js ''f1'') small_pdf (draft [])) = Inr (js ''j1'')"
    by (simp add: run_defs)
  have e: "fetch world_500 RENDER_API_URL (body_of (js ''j1'') (js ''f1'') (js ''u1'') (draft []))
       = Inr \<lparr>r_ok = False, r_status = 500, r_text = Inr (js ''boom'')\<rparr>"
    by (simp add: world_500_def)
  have f: "\<not> r_ok \<lparr>r_ok = False, r_status = 500, r_text = Inr (js ''boom'')\<rparr>" by simp
  show ?thesis
    using trigger_failure_leaves_job [OF a refl b c d e f]
    by (simp add: run_defs)
qed

text \<open>
  All collaborators succeed: the effects of the run, in order.
\<close>

theorem successful_submission_registers_once_witness:
  "submission world_ok (Some (js ''u1'')) (draft []) = Some (Inr (js ''j1''))
   \<and> handleUploadAndAnalyze world_ok (Some (js ''u1'')) (draft []) =
       (initial_state\<lparr>selectedChatId := Some (js ''j1'')\<rparr>,
        [UploadCall small_pdf,
         InsertChatCall \<lparr>o_file_id = js ''f1'', o_file_name = js ''report.pdf'',
                         o_status = js ''pending'',
                         o_query = js ''Analyze financial trends and risks''\<rparr>,
         FetchCall (js ''https://wingify-crewai-correct-code.onrender.com/analyze'')
           \<lparr>b_chat_id = js ''j1'', b_file_id = js ''f1'', b_user_id = js ''u1'',
            b_query = js ''Analyze financial trends and risks''\<rparr>,
         ClearFileInput])"
proof -
  have a: "submission world_ok (Some (js ''u1'')) (draft []) = Some (Inr (js ''j1''))"
    by (simp add: run_defs)
  show ?thesis
    using successful_submission_registers_once [OF a]
    by (simp add: run_defs)
qed

text \<open>
  The analysis service fails, the draft is kept, and the retry submits the same file and
  query.
\<close>

theorem failed_submission_keeps_draft_witness:
  "submission world_500 (Some (js ''u1'')) (draft (js ''risks?''))
     = Some (Inl (Error (js ''Analysis service failed: 500 - boom'')))
   \<and> fst (handleUploadAndAnalyze world_500 (Some (js ''u1'')) (draft (js ''risks?''))) =
       (draft (js ''risks?''))\<lparr>isProcessing := False, uploadProgress := 75,
                                progressMessage := js ''Upload failed. Please try again.''\<rparr>
   \<and> snd (handleUploadAndAnalyze world_ok (Some (js ''u1''))
            (fst (handleUploadAndAnalyze world_500 (Some (js ''u1'')) (draft (js ''risks?'')))))
      = [UploadCall small_pdf,
         InsertChatCall \<lparr>o_file_id = js ''f1'', o_file_name = js ''report.pdf'',
                         o_status = js ''pending'', o_query = js ''risks?''\<rparr>,
         FetchCall (js ''https://wingify-crewai-correct-code.onrender.com/analyze'')
           \<lparr>b_chat_id = js ''j1'', b_file_id = js ''f1'', b_user_id = js ''u1'',
            b_query = js ''risks?''\<rparr>,
         ClearFileInput]"
proof -
  have a: "submission world_500 (Some (js ''u1'')) (draft (js ''risks?''))
     = Some (Inl (Error (js ''Analysis service failed: 500 - boom'')))"
    by (simp add: run_defs)
  then have b: "\<forall>j. submission world_500 (Some (js ''u1'')) (draft (js ''risks?'')) \<noteq> Some (Inr j)"
    by simp
  have c: "snd (handleUploadAndAnalyze world_ok (Some (js ''u1'')) (draft (js ''risks?'')))
      = [UploadCall small_pdf,
         InsertChatCall \<lparr>o_file_id = js ''f1'', o_file_name = js ''report.pdf'',
                         o_status = js ''pending'', o_query = js ''risks?''\<rparr>,
         FetchCall (js ''https://wingify-crewai-correct-code.onrender.com/analyze'')
           \<lparr>b_chat_id = js ''j1'', b_file_id = js ''f1'', b_user_id = js ''u1'',
            b_query = js ''risks?''\<rparr>,
         ClearFileInput]"
    by (simp add: run_defs)
  have d: "fst (handleUploadAndAnalyze world_500 (Some (js ''u1'')) (draft (js ''risks?''))) =
       (draft (js ''risks?''))\<lparr>isProcessing := False, uploadProgress := 75,
                                progressMessage := js ''Upload failed. Please try again.''\<rparr>"
    by (simp add: run_defs)
  show ?thesis
    using failed_submission_keeps_draft [OF b, of world_ok] a c d
    by simp
qed

text \<open>
  Scenario B (a blank query gives the default) and a query with surrounding blanks.
\<close>

theorem register_gets_effective_query_witness:
  "upload_step world_ok small_pdf = Inr (js ''f1'')
   \<and> InsertChatCall \<lparr>o_file_id = js ''f1'', o_file_name = js ''report.pdf'',
                      o_status = js ''pending'',
                      o_query = js ''Analyze financial trends and risks''\<rparr>
       \<in> set (snd (handleUploadAndAnalyze world_ok (Some (js ''u1'')) (draft (js ''  ''))))
   \<and> InsertChatCall \<lparr>o_file_id = js ''f1'', o_file_name = js ''report.pdf'',
                      o_status = js ''pending'', o_query = js ''cash flow''\<rparr>
       \<in> set (snd (handleUploadAndAnalyze world_ok (Some (js ''u1'')) (draft (js '' cash flow  ''))))"
proof -
  have a: "upload_step world_ok small_pdf = Inr (js ''f1'')" by (simp add: run_defs)
  have b: "js ''u1'' \<noteq> []" by (simp add: js_def)
  have t1: "trim (userQuery (draft (js ''  ''))) = []" by (simp add: draft_def trim_def is_ws_def js_def)
  have t2: "trim (userQuery (draft (js '' cash flow  ''))) = js ''cash flow''"
    by (simp add: draft_def trim_def is_ws_def js_def)
  have f: "selectedFile (draft q) = Some small_pdf" "f_name small_pdf = js ''report.pdf''" for q
    by (simp_all add: draft_def small_pdf_def)
  have n: "js ''cash flow'' \<noteq> []" by (simp add: js_def)
  show ?thesis
    using register_gets_effective_query
            [of _ world_ok "Some (js ''u1'')" "draft (js ''  '')" small_pdf "js ''u1''" "js ''f1''"]
          register_gets_effective_query
            [of _ world_ok "Some (js ''u1'')" "draft (js '' cash flow  '')" small_pdf "js ''u1''" "js ''f1''"]
          a b f
    by (simp add: t1 t2 n DEFAULT_QUERY_def)
qed



subsection \<open>The projector and the page\<close>

lemma myChats_filter:
  "myChats d uid = filter (owned_by uid) (snapshot_rows d)"
  by (simp add: myChats_def snapshot_rows_def split: option.splits)

lemma owned_by_iff: "owned_by uid c \<longleftrightarrow> (\<exists>u. uid = Some u \<and> c_user_id c = Some u)"
  by (simp add: owned_by_def split: option.splits)

lemma selectedChat_None_iff:
  "selectedChat jobs sel = None \<longleftrightarrow> (\<forall>c\<in>set jobs. sel \<noteq> Some (c_id c))"
  by (auto simp: selectedChat_def find_None_iff)

lemma selectedChat_Some:
  "selectedChat jobs sel = Some c \<Longrightarrow> c \<in> set jobs \<and> sel = Some (c_id c)"
  by (auto simp: selectedChat_def find_Some_iff)

lemma selectedChat_unique:
  assumes "distinct (map c_id jobs)" and "c \<in> set jobs" and "sel = Some (c_id c)"
  shows "selectedChat jobs sel = Some c"
proof -
  from assms(2) have "selectedChat jobs sel \<noteq> None"
    using assms(3) by (auto simp: selectedChat_None_iff)
  then obtain c' where s: "selectedChat jobs sel = Some c'" by auto
  from selectedChat_Some [OF s] have "c' \<in> set jobs" "c_id c' = c_id c"
    using assms(3) by auto
  with assms(1,2) have "c' = c" by (meson distinct_map inj_onD)
  with s show ?thesis by simp
qed

lemma App_workspace:
  "App h st = WorkspacePage sb mv \<longleftrightarrow>
     \<not> isLoading h \<and> \<not> isPasswordReset st \<and> isAuthenticated h
     \<and> sb = Sidebar (myChats (data h) (userId h))
               (selectedChat (myChats (data h) (userId h)) (selectedChatId st))
               (subLoading h) (subError h)
     \<and> mv = (case selectedChat (myChats (data h) (userId h)) (selectedChatId st) of
               Some c \<Rightarrow> ChatWorkspaceV (ChatWorkspace c (subLoading h))
             | None \<Rightarrow>
                 UploadWorkspaceV
                   \<lparr>uw_selectedFile = selectedFile st, uw_userQuery = userQuery st,
                    uw_isProcessing = isProcessing st, uw_uploadProgress = uploadProgress st,
                    uw_progressMessage = progressMessage st\<rparr>)"
  by (auto simp: App_def Let_def)

lemma App_chat_independent_of_draft:
  assumes "selectedChat (myChats (data h) (userId h)) (selectedChatId st) = Some c"
    and "selectedChatId st' = selectedChatId st" and "isPasswordReset st' = isPasswordReset st"
  shows "App h st' = App h st"
  using assms by (simp add: App_def Let_def)

text \<open>
  Claim C1. Whenever a render shows a job, the job shown is a row of the snapshot this
  render received: the first row of the current user whose identifier is the selected
  one, and the only row with that identifier when identifiers are unique. The badge is
  computed from the \<open>status\<close> field of that row, and for the four statuses of the data
  model it names that status. The page is the same for any two states that agree on the
  selected identifier (and the password-reset flag): the draft and the progress
  indicator of the submission are not read.
\<close>

theorem displayed_status_is_latest_snapshot:
  assumes "App h st = WorkspacePage sb (ChatWorkspaceV cv)"
  shows "\<exists>c. c \<in> set (snapshot_rows (data h))
           \<and> selectedChatId st = Some (c_id c)
           \<and> owned_by (userId h) c
           \<and> selectedChat (myChats (data h) (userId h)) (selectedChatId st) = Some c
           \<and> cv = ChatWorkspace c (subLoading h)
           \<and> cw_badge cv = StatusBadge (c_status c)
           \<and> (c_status c = js ''pending'' \<longrightarrow> cw_badge cv = Some (js ''Pending''))
           \<and> (c_status c = js ''processing'' \<longrightarrow> cw_badge cv = Some (js ''Processing''))
           \<and> (c_status c = js ''completed'' \<longrightarrow> cw_badge cv = Some (js ''Completed''))
           \<and> (c_status c = js ''failed'' \<longrightarrow> cw_badge cv = Some (js ''Failed''))
           \<and> (distinct (map c_id (snapshot_rows (data h))) \<longrightarrow>
                (\<forall>c'\<in>set (snapshot_rows (data h)). c_id c' = c_id c \<longrightarrow> c' = c))
           \<and> (\<forall>st'. selectedChatId st' = selectedChatId st
                      \<and> isPasswordReset st' = isPasswordReset st \<longrightarrow> App h st' = App h st)"
proof -
  let ?jobs = "myChats (data h) (userId h)"
  from assms obtain c where
    sel: "selectedChat ?jobs (selectedChatId st) = Some c"
    and cv: "cv = ChatWorkspace c (subLoading h)"
    by (auto simp: App_workspace split: option.splits)
  from selectedChat_Some [OF sel] have m: "c \<in> set ?jobs" and i: "selectedChatId st = Some (c_id c)"
    by auto
  from m have r: "c \<in> set (snapshot_rows (data h))" and o: "owned_by (userId h) c"
    by (auto simp: myChats_filter)
  have b: "cw_badge cv = StatusBadge (c_status c)" by (simp add: cv ChatWorkspace_def)
  have ne: "js ''processing'' \<noteq> js ''pending''" "js ''completed'' \<noteq> js ''pending''"
    "js ''completed'' \<noteq> js ''processing''" "js ''failed'' \<noteq> js ''pending''"
    "js ''failed'' \<noteq> js ''processing''" "js ''failed'' \<noteq> js ''completed''"
    by (simp_all add: js_def)
  have l: "c_status c = js ''pending'' \<longrightarrow> cw_badge cv = Some (js ''Pending'')"
    "c_status c = js ''processing'' \<longrightarrow> cw_badge cv = Some (js ''Processing'')"
    "c_status c = js ''completed'' \<longrightarrow> cw_badge cv = Some (js ''Completed'')"
    "c_status c = js ''failed'' \<longrightarrow> cw_badge cv = Some (js ''Failed'')"
    by (simp_all add: b StatusBadge_def ne)
  have u: "distinct (map c_id (snapshot_rows (data h))) \<longrightarrow>
                (\<forall>c'\<in>set (snapshot_rows (data h)). c_id c' = c_id c \<longrightarrow> c' = c)"
    using r by (meson distinct_map inj_onD)
  have d: "\<forall>st'. selectedChatId st' = selectedChatId st
                      \<and> isPasswordReset st' = isPasswordReset st \<longrightarrow> App h st' = App h st"
    using App_chat_independent_of_draft [OF sel] by blast
  from r i o sel cv b l u d show ?thesis by blast
qed

text \<open>
  Claim C8. The list the projector exposes consists of exactly the rows of the snapshot
  whose owner is the current user, in the order of the snapshot, so a snapshot sorted by
  any relation (newest first, as the subscription orders it) stays sorted. The sidebar
  lists these rows, with the loading and the error flag of the subscription.
\<close>

theorem projector_exposes_own_rows:
  "myChats (data h) (userId h) = filter (owned_by (userId h)) (snapshot_rows (data h))
   \<and> set (myChats (data h) (userId h))
       = {c \<in> set (snapshot_rows (data h)). \<exists>u. userId h = Some u \<and> c_user_id c = Some u}
   \<and> subseq (myChats (data h) (userId h)) (snapshot_rows (data h))
   \<and> (sorted_wrt R (snapshot_rows (data h)) \<longrightarrow> sorted_wrt R (myChats (data h) (userId h)))
   \<and> (App h st = WorkspacePage sb mv \<longrightarrow>
         map si_key (sb_items sb) = map c_id (myChats (data h) (userId h))
         \<and> sb_syncing sb = subLoading h
         \<and> sb_error sb = (subError h \<noteq> None))"
proof -
  have a: "myChats (data h) (userId h) = filter (owned_by (userId h)) (snapshot_rows (data h))"
    by (rule myChats_filter)
  have b: "set (myChats (data h) (userId h))
       = {c \<in> set (snapshot_rows (data h)). \<exists>u. userId h = Some u \<and> c_user_id c = Some u}"
    by (auto simp: a owned_by_iff)
  have c: "subseq (myChats (data h) (userId h)) (snapshot_rows (data h))"
    by (simp add: a)
  have d: "sorted_wrt R (snapshot_rows (data h)) \<longrightarrow> sorted_wrt R (myChats (data h) (userId h))"
    by (simp add: a sorted_wrt_filter)
  have e: "App h st = WorkspacePage sb mv \<longrightarrow>
         map si_key (sb_items sb) = map c_id (myChats (data h) (userId h))
         \<and> sb_syncing sb = subLoading h
         \<and> sb_error sb = (subError h \<noteq> None)"
    by (auto simp: App_workspace Sidebar_def comp_def)
  from a b c d e show ?thesis by blast
qed

text \<open>
  Claim C9, as the code has it. Selection is a total function: it yields \<open>null\<close>
  exactly when no job handed to it has the identifier, and otherwise a job of the list
  with that identifier. When the selected identifier is not among the user's jobs of the
  snapshot, the page is the one rendered with no selection at all: for a signed-in user
  the sidebar and the upload workspace with the current draft.
\<close>

theorem absent_job_selects_nothing:
  "(selectedChat jobs sel = None \<longleftrightarrow> (\<forall>c\<in>set jobs. sel \<noteq> Some (c_id c)))
   \<and> (selectedChat jobs sel = Some c \<longrightarrow> c \<in> set jobs \<and> sel = Some (c_id c))
   \<and> ((\<forall>c\<in>set (myChats (data h) (userId h)). selectedChatId st \<noteq> Some (c_id c)) \<longrightarrow>
         App h st = App h (st\<lparr>selectedChatId := None\<rparr>)
         \<and> (\<not> isLoading h \<and> \<not> isPasswordReset st \<and> isAuthenticated h \<longrightarrow>
              App h st =
                WorkspacePage
                  (Sidebar (myChats (data h) (userId h)) None (subLoading h) (subError h))
                  (UploadWorkspaceV
                     \<lparr>uw_selectedFile = selectedFile st, uw_userQuery = userQuery st,
                      uw_isProcessing = isProcessing st, uw_uploadProgress = uploadProgress st,
                      uw_progressMessage = progressMessage st\<rparr>)))"
proof -
  have n: "selectedChat jobs' None = None" for jobs'
    by (simp add: selectedChat_None_iff)
  have a: "App h st = App h (st\<lparr>selectedChatId := None\<rparr>)"
    if "\<forall>c\<in>set (myChats (data h) (userId h)). selectedChatId st \<noteq> Some (c_id c)"
  proof -
    from that have "selectedChat (myChats (data h) (userId h)) (selectedChatId st) = None"
      by (simp add: selectedChat_None_iff)
    then show ?thesis by (simp add: App_def Let_def n)
  qed
  have b: "App h st =
                WorkspacePage
                  (Sidebar (myChats (data h) (userId h)) None (subLoading h) (subError h))
                  (UploadWorkspaceV
                     \<lparr>uw_selectedFile = selectedFile st, uw_userQuery = userQuery st,
                      uw_isProcessing = isProcessing st, uw_uploadProgress = uploadProgress st,
                      uw_progressMessage = progressMessage st\<rparr>)"
    if "\<forall>c\<in>set (myChats (data h) (userId h)). selectedChatId st \<noteq> Some (c_id c)"
      and "\<not> isLoading h \<and> \<not> isPasswordReset st \<and> isAuthenticated h"
  proof -
    from that(1) have "selectedChat (myChats (data h) (userId h)) (selectedChatId st) = None"
      by (simp add: selectedChat_None_iff)
    then show ?thesis using that(2) by (simp add: App_def Let_def)
  qed
  show ?thesis
    using a b selectedChat_None_iff [of jobs sel] selectedChat_Some [of jobs sel c]
    by blast
qed


subsection \<open>Concrete renders\<close>

lemma signed_in_fields:
  "isAuthenticated (signed_in rows)" "\<not> isLoading (signed_in rows)"
  "userId (signed_in rows) = Some (js ''u1'')" "snapshot_rows (data (signed_in rows)) = rows"
  "subLoading (signed_in rows) = False" "subError (signed_in rows) = None"
  by (simp_all add: signed_in_def snapshot_rows_def)

lemma viewing_fields:
  "\<not> isPasswordReset (viewing i)" "selectedChatId (viewing i) = Some (js i)"
  "selectedFile (viewing i) = None" "userQuery (viewing i) = []"
  "isProcessing (viewing i) = False" "uploadProgress (viewing i) = 0"
  "progressMessage (viewing i) = []"
  by (simp_all add: viewing_def initial_state_def)

lemma initial_state_fields:
  "\<not> isPasswordReset initial_state" "selectedChatId initial_state = None"
  "selectedFile initial_state = None" "userQuery initial_state = []"
  "isProcessing initial_state = False" "uploadProgress initial_state = 0"
  "progressMessage initial_state = []"
  by (simp_all add: initial_state_def)

lemma job_fields:
  "c_id (job i ow s t) = js i" "c_status (job i ow s t) = js s"
  "c_user_id (job i ow s t) = Some (js ow)" "c_created_at (job i ow s t) = js t"
  "c_analysis_result (job i ow s t) = None"
  by (simp_all add: job_def)

lemma js_eq_iff: "js a = js b \<longleftrightarrow> a = b"
  by (simp add: js_def inj_map_eq_map inj_on_def)

lemma myChats_rows3:
  "myChats (data (signed_in rows3)) (userId (signed_in rows3))
     = [job ''j3'' ''u1'' ''pending'' ''2026-03-03'', job ''j1'' ''u1'' ''processing'' ''2026-03-01'']"
  by (simp add: myChats_filter signed_in_fields rows3_def owned_by_def job_fields js_eq_iff)

lemma myChats_rows3_later:
  "myChats (data (signed_in rows3_later)) (userId (signed_in rows3_later))
     = [job ''j3'' ''u1'' ''pending'' ''2026-03-03'',
        (job ''j1'' ''u1'' ''completed'' ''2026-03-01'')
           \<lparr>c_analysis_result := Some (js ''Revenue grew.'')\<rparr>]"
  by (simp add: myChats_filter signed_in_fields rows3_later_def owned_by_def job_fields js_eq_iff)

lemmas view_defs =
  App_def myChats_def selectedChat_def owned_by_def Sidebar_def ChatWorkspace_def StatusBadge_def
  snapshot_rows_def signed_in_def viewing_def initial_state_def rows3_def rows3_later_def job_def
  truthy_def or_default_def newest_first_def object_prototype_keys_def Let_def js_def

text \<open>
  Scenario D: with job \<open>j1\<close> selected, the snapshot that reports it \<open>processing\<close>
  renders the badge \<open>Processing\<close>, the later snapshot that reports it \<open>completed\<close>
  renders \<open>Completed\<close> and the result, and the progress indicator does not matter.
\<close>

theorem displayed_status_is_latest_snapshot_witness:
  "(\<exists>sb. App (signed_in rows3) (viewing ''j1'') =
            WorkspacePage sb
              (ChatWorkspaceV (ChatWorkspace (job ''j1'' ''u1'' ''processing'' ''2026-03-01'') False)))
   \<and> cw_badge (ChatWorkspace (job ''j1'' ''u1'' ''processing'' ''2026-03-01'') False)
       = Some (js ''Processing'')
   \<and> (\<exists>sb cv. App (signed_in rows3_later) (viewing ''j1'') = WorkspacePage sb (ChatWorkspaceV cv)
         \<and> cw_badge cv = Some (js ''Completed'')
         \<and> cw_results cv = Some (js ''Revenue grew.''))
   \<and> App (signed_in rows3) ((viewing ''j1'')\<lparr>isProcessing := True, uploadProgress := 75\<rparr>)
       = App (signed_in rows3) (viewing ''j1'')"
proof -
  let ?c = "job ''j1'' ''u1'' ''processing'' ''2026-03-01''"
  let ?d = "(job ''j1'' ''u1'' ''completed'' ''2026-03-01'')
              \<lparr>c_analysis_result := Some (js ''Revenue grew.'')\<rparr>"
  let ?sb = "Sidebar (myChats (data (signed_in rows3)) (userId (signed_in rows3))) (Some ?c) False None"
  let ?sd = "Sidebar (myChats (data (signed_in rows3_later)) (userId (signed_in rows3_later)))
               (Some ?d) False None"
  have s1: "selectedChat (myChats (data (signed_in rows3)) (userId (signed_in rows3)))
              (selectedChatId (viewing ''j1'')) = Some ?c"
    by (simp add: myChats_rows3 viewing_fields selectedChat_def job_fields js_eq_iff)
  have s2: "selectedChat (myChats (data (signed_in rows3_later)) (userId (signed_in rows3_later)))
              (selectedChatId (viewing ''j1'')) = Some ?d"
    by (simp add: myChats_rows3_later viewing_fields selectedChat_def job_fields js_eq_iff)
  have h: "App (signed_in rows3) (viewing ''j1'')
             = WorkspacePage ?sb (ChatWorkspaceV (ChatWorkspace ?c False))"
    by (simp add: App_workspace s1 signed_in_fields(1,2,5,6) viewing_fields(1))
  have l: "App (signed_in rows3_later) (viewing ''j1'')
             = WorkspacePage ?sd (ChatWorkspaceV (ChatWorkspace ?d False))"
    by (simp add: App_workspace s2 signed_in_fields(1,2,5,6) viewing_fields(1))
  note T = displayed_status_is_latest_snapshot [OF h]
  note U = displayed_status_is_latest_snapshot [OF l]
  have p: "c_status ?c = js ''processing''" "c_status ?d = js ''completed''"
    by (simp_all add: job_fields)
  from T obtain c where
    c1: "selectedChat (myChats (data (signed_in rows3)) (userId (signed_in rows3)))
           (selectedChatId (viewing ''j1'')) = Some c"
    and c2: "c_status c = js ''processing'' \<longrightarrow>
               cw_badge (ChatWorkspace ?c False) = Some (js ''Processing'')"
    by blast
  from c1 s1 have "c = ?c" by simp
  with c2 p(1) have b1: "cw_badge (ChatWorkspace ?c False) = Some (js ''Processing'')"
    by simp
  from U obtain d where
    d1: "selectedChat (myChats (data (signed_in rows3_later)) (userId (signed_in rows3_later)))
           (selectedChatId (viewing ''j1'')) = Some d"
    and d2: "c_status d = js ''completed'' \<longrightarrow>
               cw_badge (ChatWorkspace ?d False) = Some (js ''Completed'')"
    by blast
  from d1 s2 have "d = ?d" by simp
  with d2 p(2) have b2: "cw_badge (ChatWorkspace ?d False) = Some (js ''Completed'')"
    by simp
  have b3: "cw_results (ChatWorkspace ?d False) = Some (js ''Revenue grew.'')"
    by (simp add: ChatWorkspace_def p truthy_def) (simp add: js_def)
  have v: "selectedChatId ((viewing ''j1'')\<lparr>isProcessing := True, uploadProgress := 75\<rparr>)
             = selectedChatId (viewing ''j1'')
           \<and> isPasswordReset ((viewing ''j1'')\<lparr>isProcessing := True, uploadProgress := 75\<rparr>)
             = isPasswordReset (viewing ''j1'')"
    by simp
  from T v have e: "App (signed_in rows3) ((viewing ''j1'')\<lparr>isProcessing := True, uploadProgress := 75\<rparr>)
             = App (signed_in rows3) (viewing ''j1'')"
    by blast
  from h l b1 b2 b3 e show ?thesis by blast
qed

text \<open>
  Three rows, two of them of the current user: the row of the other user is not exposed
  and the order is kept.
\<close>

theorem projector_exposes_own_rows_witness:
  "myChats (data (signed_in rows3)) (userId (signed_in rows3))
     = [job ''j3'' ''u1'' ''pending'' ''2026-03-03'', job ''j1'' ''u1'' ''processing'' ''2026-03-01'']
   \<and> sorted_wrt newest_first rows3
   \<and> sorted_wrt newest_first (myChats (data (signed_in rows3)) (userId (signed_in rows3)))
   \<and> (\<exists>sb mv. App (signed_in rows3) initial_state = WorkspacePage sb mv
          \<and> map si_key (sb_items sb) = [js ''j3'', js ''j1'']
          \<and> sb_syncing sb = False \<and> sb_error sb = False)"
proof -
  let ?jobs = "myChats (data (signed_in rows3)) (userId (signed_in rows3))"
  let ?sb = "Sidebar ?jobs None False None"
  let ?mv = "UploadWorkspaceV
               \<lparr>uw_selectedFile = None, uw_userQuery = [], uw_isProcessing = False,
                uw_uploadProgress = 0, uw_progressMessage = []\<rparr>"
  have s: "sorted_wrt newest_first rows3"
    by (simp add: rows3_def newest_first_def job_fields) (simp add: js_def)
  then have s': "sorted_wrt newest_first (snapshot_rows (data (signed_in rows3)))"
    by (simp add: signed_in_fields)
  have n: "selectedChat ?jobs (selectedChatId initial_state) = None"
    by (simp add: selectedChat_None_iff initial_state_fields)
  have a: "App (signed_in rows3) initial_state = WorkspacePage ?sb ?mv"
    by (simp add: App_workspace n signed_in_fields(1,2,5,6) initial_state_fields(1,3-7))
  note T = projector_exposes_own_rows [of "signed_in rows3" newest_first initial_state ?sb ?mv]
  from T s' have t1: "sorted_wrt newest_first ?jobs" by blast
  from T a have t2: "map si_key (sb_items ?sb) = map c_id ?jobs" by blast
  from T a have t3: "sb_syncing ?sb = subLoading (signed_in rows3)" by blast
  from T a have t4: "sb_error ?sb = (subError (signed_in rows3) \<noteq> None)" by blast
  have k: "map si_key (sb_items ?sb) = [js ''j3'', js ''j1'']"
    using t2 by (simp add: myChats_rows3 job_fields)
  have f: "sb_syncing ?sb = False" "sb_error ?sb = False"
    using t3 t4 by (simp_all add: signed_in_fields(5,6))
  have ex: "\<exists>sb mv. App (signed_in rows3) initial_state = WorkspacePage sb mv
          \<and> map si_key (sb_items sb) = [js ''j3'', js ''j1'']
          \<and> sb_syncing sb = False \<and> sb_error sb = False"
    by (intro exI [of _ ?sb] exI [of _ ?mv] conjI a k f)
  show ?thesis by (intro conjI myChats_rows3 s t1 ex)
qed

text \<open>
  An identifier that no job of the user has: nothing is selected and the page is that
  of the initial state.
\<close>

theorem absent_job_selects_nothing_witness:
  "js ''j9'' \<notin> c_id ` set (myChats (data (signed_in rows3)) (userId (signed_in rows3)))
   \<and> selectedChat (myChats (data (signed_in rows3)) (userId (signed_in rows3))) (Some (js ''j9''))
       = None
   \<and> App (signed_in rows3) (viewing ''j9'') = App (signed_in rows3) initial_state
   \<and> App (signed_in rows3) (viewing ''j9'') =
       WorkspacePage
         (Sidebar (myChats (data (signed_in rows3)) (userId (signed_in rows3))) None False None)
         (UploadWorkspaceV
            \<lparr>uw_selectedFile = None, uw_userQuery = [], uw_isProcessing = False,
             uw_uploadProgress = 0, uw_progressMessage = []\<rparr>)"
proof -
  let ?jobs = "myChats (data (signed_in rows3)) (userId (signed_in rows3))"
  have n: "js ''j9'' \<notin> c_id ` set ?jobs"
    by (simp add: myChats_rows3 job_fields js_eq_iff)
  then have a: "\<forall>c\<in>set ?jobs. selectedChatId (viewing ''j9'') \<noteq> Some (c_id c)"
    by (auto simp: viewing_fields)
  from n have a': "\<forall>c\<in>set ?jobs. Some (js ''j9'') \<noteq> Some (c_id c)"
    by auto
  have v: "(viewing ''j9'')\<lparr>selectedChatId := None\<rparr> = initial_state"
    by (simp add: viewing_def initial_state_def)
  have i: "\<not> isLoading (signed_in rows3) \<and> \<not> isPasswordReset (viewing ''j9'')
           \<and> isAuthenticated (signed_in rows3)"
    by (simp add: signed_in_fields viewing_fields)
  note T = absent_job_selects_nothing [of ?jobs "Some (js ''j9'')" "job ''j3'' ''u1'' ''pending'' ''2026-03-03''"
         "signed_in rows3" "viewing ''j9''"]
  from T a' have t1: "selectedChat ?jobs (Some (js ''j9'')) = None" by blast
  from T a have t2: "App (signed_in rows3) (viewing ''j9'')
                       = App (signed_in rows3) ((viewing ''j9'')\<lparr>selectedChatId := None\<rparr>)"
    by blast
  from T a i have t3: "App (signed_in rows3) (viewing ''j9'') =
                WorkspacePage
                  (Sidebar ?jobs None (subLoading (signed_in rows3)) (subError (signed_in rows3)))
                  (UploadWorkspaceV
                     \<lparr>uw_selectedFile = selectedFile (viewing ''j9''),
                      uw_userQuery = userQuery (viewing ''j9''),
                      uw_isProcessing = isProcessing (viewing ''j9''),
                      uw_uploadProgress = uploadProgress (viewing ''j9''),
                      uw_progressMessage = progressMessage (viewing ''j9'')\<rparr>)"
    by blast
  have t3': "App (signed_in rows3) (viewing ''j9'') =
       WorkspacePage (Sidebar ?jobs None False None)
         (UploadWorkspaceV
            \<lparr>uw_selectedFile = None, uw_userQuery = [], uw_isProcessing = False,
             uw_uploadProgress = 0, uw_progressMessage = []\<rparr>)"
    using t3 by (simp only: signed_in_fields(5,6) viewing_fields(3-7))
  show ?thesis by (intro conjI n t1 t2 [unfolded v] t3')
qed

text \<open>
  The race of claim C9: a submission has just succeeded and selected job \<open>j1\<close>, the
  snapshot does not hold the row yet. The page is the empty upload form with the notice
  of an empty list, the very page of the initial state; nothing tells the user that a
  job is on its way.
\<close>

theorem dangling_selection_counterexample:
  "fst (handleUploadAndAnalyze world_ok (Some (js ''u1'')) (draft [])) = viewing ''j1''
   \<and> selectedChat (myChats (data (signed_in [])) (userId (signed_in []))) (Some (js ''j1'')) = None
   \<and> App (signed_in []) (viewing ''j1'') = App (signed_in []) initial_state
   \<and> App (signed_in []) (viewing ''j1'') =
       WorkspacePage
         \<lparr>sb_items = [], sb_empty = True, sb_syncing = False, sb_error = False\<rparr>
         (UploadWorkspaceV
            \<lparr>uw_selectedFile = None, uw_userQuery = [], uw_isProcessing = False,
             uw_uploadProgress = 0, uw_progressMessage = []\<rparr>)"
proof -
  have a: "fst (handleUploadAndAnalyze world_ok (Some (js ''u1'')) (draft [])) = viewing ''j1''"
    by (simp add: run_defs viewing_def)
  have b: "selectedChat (myChats (data (signed_in [])) (userId (signed_in []))) (Some (js ''j1'')) = None"
    by (simp add: view_defs)
  have c: "App (signed_in []) (viewing ''j1'') =
       WorkspacePage
         \<lparr>sb_items = [], sb_empty = True, sb_syncing = False, sb_error = False\<rparr>
         (UploadWorkspaceV
            \<lparr>uw_selectedFile = None, uw_userQuery = [], uw_isProcessing = False,
             uw_uploadProgress = 0, uw_progressMessage = []\<rparr>)"
    by (simp add: view_defs)
  have d: "App (signed_in []) initial_state =
       WorkspacePage
         \<lparr>sb_items = [], sb_empty = True, sb_syncing = False, sb_error = False\<rparr>
         (UploadWorkspaceV
            \<lparr>uw_selectedFile = None, uw_userQuery = [], uw_isProcessing = False,
             uw_uploadProgress = 0, uw_progressMessage = []\<rparr>)"
    by (simp add: view_defs)
  from a b c d show ?thesis by simp
qed

subsection \<open>The unmounted components\<close>

lemma FileUpload_inserts_processing:
  "LInsertCall obj \<in> set (FileUpload_handleFileChange up ins uid fo) \<Longrightarrow>
   l_status obj = js ''processing''"
proof (cases fo)
  case None
  assume "LInsertCall obj \<in> set (FileUpload_handleFileChange up ins uid fo)"
  with None show ?thesis by (simp add: FileUpload_handleFileChange_def)
next
  case (Some f)
  assume a: "LInsertCall obj \<in> set (FileUpload_handleFileChange up ins uid fo)"
  show ?thesis
  proof (cases "up f")
    case (Inl e)
    with a Some show ?thesis by (simp add: FileUpload_handleFileChange_def)
  next
    case (Inr r)
    show ?thesis
    proof (cases "s_error r")
      case (Some e)
      with a \<open>fo = Some f\<close> Inr show ?thesis by (simp add: FileUpload_handleFileChange_def)
    next
      case None
      show ?thesis
      proof (cases "s_fileMetadata r")
        case None
        with a \<open>fo = Some f\<close> Inr \<open>s_error r = None\<close> show ?thesis
          by (simp add: FileUpload_handleFileChange_def)
      next
        case (Some m)
        with a \<open>fo = Some f\<close> Inr \<open>s_error r = None\<close> show ?thesis
          by (cases "ins \<lparr>l_user_id = uid, l_file_id = m_id m, l_file_name = f_name f,
                            l_status = js ''processing''\<rparr>")
             (auto simp: FileUpload_handleFileChange_def Let_def)
      qed
    qed
  qed
qed

lemma FileUpload_upload_error:
  "up f = Inr r \<Longrightarrow> s_error r = Some e \<Longrightarrow>
   FileUpload_handleFileChange up ins uid (Some f)
     = [LUploadCall f, LAlert (js ''Upload failed: '' @ message e)]"
  by (simp add: FileUpload_handleFileChange_def)

lemma ChatHistory_lists_every_row:
  "ChatHistory False (Some cs) = Some (History rows) \<Longrightarrow>
   map (fst \<circ> snd) rows = map c_status cs"
  by (auto simp: ChatHistory_def)

end
